theory Spec2Isabelle
  imports Complex_Main
begin

section \<open>JavaScript values used by the application\<close>

text \<open>
  The TypeScript interfaces of \<^verbatim>\<open>types.ts\<close> are erased at run time: what
  \<^verbatim>\<open>JSON.parse(text) as PaperAnalysis\<close> returns is whatever JSON value the text denotes.
  A \<^verbatim>\<open>PaperAnalysis | null\<close> slot is therefore modelled as a JSON value, \<open>JNull\<close> being
  \<^verbatim>\<open>null\<close>, and the tests \<^verbatim>\<open>!x\<close> and \<^verbatim>\<open>x && ...\<close> of the source are JavaScript
  truthiness.
\<close>

datatype json =
    JNull
  | JBool bool
  | JNum real
  | JStr string
  | JArr "json list"
  | JObj "(string \<times> json) list"

fun truthy :: "json \<Rightarrow> bool" where
  "truthy JNull = False"
| "truthy (JBool b) = b"
| "truthy (JNum x) = (x \<noteq> 0)"
| "truthy (JStr s) = (s \<noteq> [])"
| "truthy (JArr xs) = True"
| "truthy (JObj kvs) = True"

text \<open>Truthiness of a \<^verbatim>\<open>string | undefined\<close> value (\<open>None\<close> is \<^verbatim>\<open>undefined\<close>).\<close>

fun truthy_string :: "string option \<Rightarrow> bool" where
  "truthy_string None = False"
| "truthy_string (Some s) = (s \<noteq> [])"

text \<open>
  A thrown value is an \<^verbatim>\<open>Error\<close> instance with its name and message, or some other
  value (the \<^verbatim>\<open>ProgressEvent\<close> a \<^verbatim>\<open>FileReader\<close> rejects with, for instance) that may
  or may not carry these properties.
\<close>

datatype thrown =
    ErrorObj (ename: string) (emessage: string)
  | OtherValue (oname: "string option") (omessage: "string option")

datatype 'a outcome = Resolved 'a | Rejected thrown

text \<open>\<^verbatim>\<open>String.prototype.includes\<close>: the needle occurs as a contiguous substring.\<close>

fun startsWith :: "string \<Rightarrow> string \<Rightarrow> bool" where
  "startsWith s [] = True"
| "startsWith [] (c # cs) = False"
| "startsWith (d # ds) (c # cs) = (d = c \<and> startsWith ds cs)"

fun includes_js :: "string \<Rightarrow> string \<Rightarrow> bool" where
  "includes_js [] needle = (needle = [])"
| "includes_js (d # ds) needle = (startsWith (d # ds) needle \<or> includes_js ds needle)"

text \<open>\<^verbatim>\<open>s.split(',')\<close>: the pieces of \<open>s\<close> between the separator characters.\<close>

fun split_js :: "char \<Rightarrow> string \<Rightarrow> string list" where
  "split_js sep [] = [[]]"
| "split_js sep (c # cs) =
     (if c = sep then [] # split_js sep cs
      else (case split_js sep cs of
              [] \<Rightarrow> [[c]]
            | p # ps \<Rightarrow> (c # p) # ps))"

text \<open>Array indexing \<^verbatim>\<open>xs[i]\<close>, \<^verbatim>\<open>undefined\<close> out of range.\<close>

fun index_js :: "'a list \<Rightarrow> nat \<Rightarrow> 'a option" where
  "index_js [] i = None"
| "index_js (x # xs) 0 = Some x"
| "index_js (x # xs) (Suc i) = index_js xs i"

record File =
  name :: string
  mime :: string
  content :: string

section \<open>The analysis client (\<^verbatim>\<open>services/geminiService.ts\<close>)\<close>

datatype schema =
    TypeSTRING string
  | TypeARRAY schema string
  | TypeOBJECT "(string \<times> schema) list" "string list"

definition analysisSchema :: schema where
  "analysisSchema = TypeOBJECT
     [(''problemSolved'',
         TypeSTRING ''A concise explanation of the core problem the paper aims to solve.''),
      (''innovations'',
         TypeARRAY (TypeSTRING [])
           ''List of main contributions or innovations proposed in the paper.''),
      (''comparisonMethods'',
         TypeARRAY (TypeSTRING [])
           ''List of existing methods or baselines the paper compares against.''),
      (''limitations'',
         TypeARRAY (TypeSTRING [])
           ''List of limitations, defects, or future work mentioned in the paper.''),
      (''summary'',
         TypeSTRING ''A brief executive summary of the entire paper.'')]
     [''problemSolved'', ''innovations'', ''comparisonMethods'', ''limitations'', ''summary'']"

text \<open>
  A part of a request: inline data (MIME type and base64 data, \<open>None\<close> where the source
  passes \<^verbatim>\<open>undefined\<close>), a text, or the template literal of the translation prompt, a
  fixed text followed by \<^verbatim>\<open>JSON.stringify(data)\<close>; the serialisation is kept as the
  value it serialises.
\<close>

datatype part =
    InlineData string "string option"
  | TextPart string
  | TemplatePart string json

record request =
  model :: string
  parts :: "part list"
  responseMimeType :: string
  responseSchema :: schema
  systemInstruction :: "string option"

text \<open>
  The text of a response, \<^verbatim>\<open>response.text\<close>, is \<^verbatim>\<open>undefined\<close> (\<open>None\<close>) or a string.
  \<^verbatim>\<open>JSON.parse\<close> is a built-in of the language; a string is represented by what the
  parser makes of it: a string that is not JSON, with the message of the
  \<^verbatim>\<open>SyntaxError\<close> the parser throws on it, or the JSON value it denotes. The empty
  string is \<open>NotJson [] m\<close>.
\<close>

datatype payload =
    NotJson string string
  | Json json

fun falsy_text :: "payload \<Rightarrow> bool" where
  "falsy_text (NotJson s m) = (s = [])"
| "falsy_text (Json j) = False"

fun JSON_parse :: "payload \<Rightarrow> thrown + json" where
  "JSON_parse (NotJson s m) = Inl (ErrorObj ''SyntaxError'' m)"
| "JSON_parse (Json j) = Inr j"

text \<open>Everything the program does to the outside world, in the order it does it.\<close>

datatype effect =
    ReadAsDataURL File
  | GenerateContent request
  | ConsoleError string "thrown option"
  | Alert string
  | CreateObjectURL File nat
  | RevokeObjectURL nat
  | Call_analyzePaper File
  | Call_translateAnalysis json

text \<open>
  \<^verbatim>\<open>processFileToBase64\<close>: the reader either fails (the promise rejects with the error
  event) or yields a data URL, of which the piece after the first comma is kept.
\<close>

definition processFileToBase64 ::
  "File \<Rightarrow> string outcome \<Rightarrow> (string option) outcome \<times> effect list" where
  "processFileToBase64 f reader =
     (case reader of
        Rejected e \<Rightarrow> (Rejected e, [ReadAsDataURL f])
      | Resolved result \<Rightarrow> (Resolved (index_js (split_js CHR '','' result) 1), [ReadAsDataURL f]))"

definition analyze_request :: "string option \<Rightarrow> request" where
  "analyze_request base64Data =
     \<lparr> model = ''gemini-2.5-flash'',
       parts = [InlineData ''application/pdf'' base64Data,
                TextPart ''Analyze this research paper. Identify the problem it solves, its key innovations, the methods it compares against, and its limitations or defects. Provide a structured response.''],
       responseMimeType = ''application/json'',
       responseSchema = analysisSchema,
       systemInstruction = Some ''You are an expert academic researcher. Your goal is to critically analyze research papers and extract key insights concisely.'' \<rparr>"

text \<open>
  The body of the \<^verbatim>\<open>try\<close> block once the request has been answered: \<open>remote\<close> is the
  outcome of \<^verbatim>\<open>ai.models.generateContent\<close>, the text of the response on success.
\<close>

definition read_response :: "(payload option) outcome \<Rightarrow> thrown + json" where
  "read_response remote =
     (case remote of
        Rejected e \<Rightarrow> Inl e
      | Resolved txt \<Rightarrow>
          (case txt of
             None \<Rightarrow> Inl (ErrorObj ''Error'' ''No response received from Gemini.'')
           | Some t \<Rightarrow>
               if falsy_text t then Inl (ErrorObj ''Error'' ''No response received from Gemini.'')
               else JSON_parse t))"

text \<open>The \<^verbatim>\<open>catch\<close> block logs the error under a label and throws it again.\<close>

definition log_and_rethrow :: "string \<Rightarrow> thrown + json \<Rightarrow> effect list" where
  "log_and_rethrow label r =
     (case r of Inl e \<Rightarrow> [ConsoleError label (Some e)] | Inr j \<Rightarrow> [])"

definition analyzePaper ::
  "string option \<Rightarrow> File \<Rightarrow> string outcome \<Rightarrow> (payload option) outcome
     \<Rightarrow> (thrown + json) \<times> effect list" where
  "analyzePaper apiKey f reader remote =
     (if \<not> truthy_string apiKey
      then (Inl (ErrorObj ''Error''
                  ''API Key is missing. Please check your environment configuration.''), [])
      else
        (case processFileToBase64 f reader of
           (Rejected e, fx) \<Rightarrow> (Inl e, fx)
         | (Resolved base64Data, fx) \<Rightarrow>
             (let r = read_response remote
              in (r, fx @ [GenerateContent (analyze_request base64Data)]
                        @ log_and_rethrow ''Error analyzing paper:'' r))))"

definition nl :: string where
  "nl = [CHR 0x0A]"

definition translate_prompt :: string where
  "translate_prompt =
     ''Translate the values of the following JSON object into simplified Chinese. '' @ nl @
     ''            Maintain the exact same JSON structure and keys. Do not translate the keys.'' @ nl @
     ''            Ensure the tone is professional and academic.'' @ nl @
     nl @
     ''            Input JSON:'' @ nl @
     ''            ''"

definition translate_request :: "json \<Rightarrow> request" where
  "translate_request data =
     \<lparr> model = ''gemini-2.5-flash'',
       parts = [TemplatePart translate_prompt data],
       responseMimeType = ''application/json'',
       responseSchema = analysisSchema,
       systemInstruction = None \<rparr>"

definition translateAnalysis ::
  "string option \<Rightarrow> json \<Rightarrow> (payload option) outcome \<Rightarrow> (thrown + json) \<times> effect list" where
  "translateAnalysis apiKey data remote =
     (if \<not> truthy_string apiKey
      then (Inl (ErrorObj ''Error'' ''API Key is missing.''), [])
      else
        (let r = read_response remote
         in (r, [GenerateContent (translate_request data)]
                  @ log_and_rethrow ''Error translating analysis:'' r)))"

text \<open>
  The interface \<^verbatim>\<open>PaperAnalysis\<close> of \<^verbatim>\<open>types.ts\<close>, as a test on a JSON value: an object
  with the five fields, strings and arrays of strings as declared.
\<close>

fun lookup_js :: "(string \<times> json) list \<Rightarrow> string \<Rightarrow> json option" where
  "lookup_js [] k = None"
| "lookup_js ((k', v) # kvs) k = (case lookup_js kvs k of Some w \<Rightarrow> Some w | None \<Rightarrow> if k' = k then Some v else None)"

fun is_string :: "json option \<Rightarrow> bool" where
  "is_string (Some (JStr s)) = True"
| "is_string other = False"

fun is_JStr :: "json \<Rightarrow> bool" where
  "is_JStr (JStr s) = True"
| "is_JStr other = False"

fun is_string_array :: "json option \<Rightarrow> bool" where
  "is_string_array (Some (JArr xs)) = list_all is_JStr xs"
| "is_string_array other = False"

fun is_PaperAnalysis :: "json \<Rightarrow> bool" where
  "is_PaperAnalysis (JObj kvs) =
     (is_string (lookup_js kvs ''problemSolved'') \<and>
      is_string_array (lookup_js kvs ''innovations'') \<and>
      is_string_array (lookup_js kvs ''comparisonMethods'') \<and>
      is_string_array (lookup_js kvs ''limitations'') \<and>
      is_string (lookup_js kvs ''summary''))"
| "is_PaperAnalysis other = False"

section \<open>The upload surface (\<^verbatim>\<open>components/FileUpload.tsx\<close>)\<close>

text \<open>
  What a handler of the upload surface does with the files of its event: hand the first
  one to \<^verbatim>\<open>onFileSelect\<close>, tell the user, or nothing. (\<^verbatim>\<open>dragActive\<close> only colours the
  border and is left out.)
\<close>

datatype upload_action =
    OnFileSelect File
  | AlertUser string
  | NoAction

definition handleDrop :: "File list \<Rightarrow> upload_action" where
  "handleDrop files =
     (case files of
        [] \<Rightarrow> NoAction
      | f # rest \<Rightarrow>
          if mime f = ''application/pdf'' then OnFileSelect f
          else AlertUser ''Please upload a PDF file.'')"

definition handleChange :: "File list \<Rightarrow> upload_action" where
  "handleChange files =
     (case files of
        [] \<Rightarrow> NoAction
      | f # rest \<Rightarrow> OnFileSelect f)"

section \<open>The application controller (\<^verbatim>\<open>App.tsx\<close>)\<close>

datatype language = En | Zh

record AnalysisState =
  isLoading :: bool
  error :: "string option"
  data :: json

text \<open>
  The state hooks of the component. An object URL is named by a number; \<open>None\<close> is
  \<^verbatim>\<open>null\<close>.
\<close>

record App =
  state :: AnalysisState
  fileName :: "string option"
  pdfUrl :: "nat option"
  translatedData :: json
  language :: language
  isTranslating :: bool

text \<open>
  The component in its environment: the configured credential
  (\<^verbatim>\<open>process.env.API_KEY\<close>), the next object URL the browser will hand out, the calls
  of \<^verbatim>\<open>analyzePaper\<close> and \<^verbatim>\<open>translateAnalysis\<close> that are awaited (with their
  argument), and the effects so far, oldest first.
\<close>

record world =
  app :: App
  mounted :: bool
  apiKey :: "string option"
  nextUrl :: nat
  analysing :: "File list"
  translating :: "json list"
  log :: "effect list"

definition idle :: AnalysisState where
  "idle = \<lparr> isLoading = False, error = None, data = JNull \<rparr>"

definition init :: "string option \<Rightarrow> world" where
  "init key =
     \<lparr> app = \<lparr> state = idle, fileName = None, pdfUrl = None,
               translatedData = JNull, language = En, isTranslating = False \<rparr>,
       mounted = True, apiKey = key, nextUrl = 0,
       analysing = [], translating = [], log = [] \<rparr>"

definition emit :: "effect list \<Rightarrow> world \<Rightarrow> world" where
  "emit fx w = w\<lparr> log := log w @ fx \<rparr>"

text \<open>
  \<^verbatim>\<open>handleFileSelect\<close> up to its \<^verbatim>\<open>await\<close>: the previous URL is revoked if there is
  one, the translation state is reset, a URL is created for the file, the state becomes
  loading and \<^verbatim>\<open>analyzePaper(file)\<close> is called.
\<close>

definition handleFileSelect_start :: "File \<Rightarrow> world \<Rightarrow> world" where
  "handleFileSelect_start f w =
     (let w1 = (case pdfUrl (app w) of
                  Some u \<Rightarrow> emit [RevokeObjectURL u] w
                | None \<Rightarrow> w);
          url = nextUrl w1;
          w2 = emit [CreateObjectURL f url] (w1\<lparr> nextUrl := Suc url \<rparr>);
          a = (app w2)\<lparr> translatedData := JNull, language := En,
                        pdfUrl := Some url, fileName := Some (name f),
                        state := \<lparr> isLoading = True, error = None, data = JNull \<rparr> \<rparr>
      in emit [Call_analyzePaper f] (w2\<lparr> app := a, analysing := analysing w2 @ [f] \<rparr>))"

text \<open>
  The message of the \<^verbatim>\<open>catch\<close> block: the default, replaced by the message of an
  \<^verbatim>\<open>Error\<close> instance, replaced in turn when the message of the thrown value includes
  \<^verbatim>\<open>"API Key"\<close>.
\<close>

fun message_of :: "thrown \<Rightarrow> string option" where
  "message_of (ErrorObj n m) = Some m"
| "message_of (OtherValue n m) = m"

definition errorMessage :: "thrown \<Rightarrow> string" where
  "errorMessage err =
     (let m0 = ''An unexpected error occurred.'';
          m1 = (case err of ErrorObj n m \<Rightarrow> m | OtherValue n m \<Rightarrow> m0)
      in (case message_of err of
            Some m \<Rightarrow> if includes_js m ''API Key''
                      then ''Missing API Key. Please verify your settings.'' else m1
          | None \<Rightarrow> m1))"

text \<open>\<^verbatim>\<open>handleFileSelect\<close> after its \<^verbatim>\<open>await\<close>, on the result of \<^verbatim>\<open>analyzePaper\<close>.\<close>

definition handleFileSelect_resume :: "thrown + json \<Rightarrow> world \<Rightarrow> world" where
  "handleFileSelect_resume r w =
     (case r of
        Inr d \<Rightarrow> w\<lparr> app := (app w)\<lparr> state := \<lparr> isLoading = False, error = None, data = d \<rparr> \<rparr> \<rparr>
      | Inl err \<Rightarrow>
          (emit [ConsoleError [] (Some err)] w)
            \<lparr> app := (app w)\<lparr> state := \<lparr> isLoading = False, error = Some (errorMessage err),
                                          data = JNull \<rparr> \<rparr> \<rparr>)"

definition handleReset :: "world \<Rightarrow> world" where
  "handleReset w =
     w\<lparr> app := (app w)\<lparr> state := \<lparr> isLoading = False, error = None, data = JNull \<rparr>,
                         fileName := None, pdfUrl := None,
                         translatedData := JNull, language := En \<rparr> \<rparr>"

text \<open>\<^verbatim>\<open>handleLanguageToggle\<close> up to its \<^verbatim>\<open>await\<close>, if it reaches one.\<close>

definition handleLanguageToggle_start :: "language \<Rightarrow> world \<Rightarrow> world" where
  "handleLanguageToggle_start targetLang w =
     (if targetLang = language (app w) then w
      else if targetLang = Zh \<and> \<not> truthy (translatedData (app w)) \<and> truthy (data (state (app w)))
      then emit [Call_translateAnalysis (data (state (app w)))]
             (w\<lparr> app := (app w)\<lparr> isTranslating := True \<rparr>,
                 translating := translating w @ [data (state (app w))] \<rparr>)
      else w\<lparr> app := (app w)\<lparr> language := targetLang \<rparr> \<rparr>)"

text \<open>Whether the toggle reaches the call of \<^verbatim>\<open>translateAnalysis\<close>.\<close>

definition starts_translation :: "language \<Rightarrow> world \<Rightarrow> bool" where
  "starts_translation targetLang w =
     (targetLang \<noteq> language (app w) \<and> targetLang = Zh
      \<and> \<not> truthy (translatedData (app w)) \<and> truthy (data (state (app w))))"

text \<open>
  \<^verbatim>\<open>handleLanguageToggle\<close> after its \<^verbatim>\<open>await\<close>, on the result of
  \<^verbatim>\<open>translateAnalysis\<close>: the \<^verbatim>\<open>try\<close>, \<^verbatim>\<open>catch\<close> and \<^verbatim>\<open>finally\<close> blocks.
\<close>

definition handleLanguageToggle_resume :: "thrown + json \<Rightarrow> world \<Rightarrow> world" where
  "handleLanguageToggle_resume r w =
     (let w1 = (case r of
                  Inr result \<Rightarrow> w\<lparr> app := (app w)\<lparr> translatedData := result, language := Zh \<rparr> \<rparr>
                | Inl err \<Rightarrow> emit [ConsoleError ''Translation failed:'' (Some err),
                                   Alert ''Translation failed. Please try again.''] w)
      in w1\<lparr> app := (app w1)\<lparr> isTranslating := False \<rparr> \<rparr>)"

text \<open>What the results pane shows.\<close>

definition currentAnalysis :: "App \<Rightarrow> json" where
  "currentAnalysis a =
     (if language a = Zh \<and> truthy (translatedData a) then translatedData a
      else data (state a))"

text \<open>
  The effect hook on \<^verbatim>\<open>[pdfUrl]\<close>: when a render commits a different \<^verbatim>\<open>pdfUrl\<close>, the
  cleanup of the previous effect runs and revokes the URL it was set up with.
\<close>

definition cleanup :: "nat option \<Rightarrow> world \<Rightarrow> world" where
  "cleanup url w = (case url of Some u \<Rightarrow> emit [RevokeObjectURL u] w | None \<Rightarrow> w)"

definition commit :: "world \<Rightarrow> world \<Rightarrow> world" where
  "commit old w =
     (if pdfUrl (app w) \<noteq> pdfUrl (app old) then cleanup (pdfUrl (app old)) w else w)"

text \<open>
  What can happen to the mounted component. The upload surface is rendered only while
  \<^verbatim>\<open>pdfUrl\<close> is null and is disabled while loading; the reset buttons are rendered only
  while \<^verbatim>\<open>pdfUrl\<close> is set; the language buttons are rendered only in the split view
  while \<^verbatim>\<open>state.data\<close> is truthy and are disabled while translating. A settling call
  brings the answers of the file reader and of the remote service with it.
\<close>

datatype event =
    Drop "File list"
  | Change "File list"
  | ClickReset
  | ClickLanguage language
  | AnalysisSettles nat "string outcome" "(payload option) outcome"
  | TranslationSettles nat "(payload option) outcome"
  | Unmount

definition upload_shown :: "world \<Rightarrow> bool" where
  "upload_shown w = (pdfUrl (app w) = None \<and> \<not> isLoading (state (app w)))"

definition reset_shown :: "world \<Rightarrow> bool" where
  "reset_shown w = (pdfUrl (app w) \<noteq> None)"

definition toggle_shown :: "world \<Rightarrow> bool" where
  "toggle_shown w =
     (pdfUrl (app w) \<noteq> None \<and> truthy (data (state (app w))) \<and> \<not> isTranslating (app w))"

fun perform :: "upload_action \<Rightarrow> world \<Rightarrow> world" where
  "perform (OnFileSelect f) w = handleFileSelect_start f w"
| "perform (AlertUser m) w = emit [Alert m] w"
| "perform NoAction w = w"

definition without :: "nat \<Rightarrow> 'a list \<Rightarrow> 'a list" where
  "without k xs = take k xs @ drop (Suc k) xs"

fun dispatch :: "event \<Rightarrow> world \<Rightarrow> world option" where
  "dispatch (Drop files) w =
     (if upload_shown w then Some (perform (handleDrop files) w) else None)"
| "dispatch (Change files) w =
     (if upload_shown w then Some (perform (handleChange files) w) else None)"
| "dispatch ClickReset w =
     (if reset_shown w then Some (handleReset w) else None)"
| "dispatch (ClickLanguage l) w =
     (if toggle_shown w then Some (handleLanguageToggle_start l w) else None)"
| "dispatch (AnalysisSettles k reader remote) w =
     (if k < length (analysing w)
      then (case analyzePaper (apiKey w) (analysing w ! k) reader remote of
              (r, fx) \<Rightarrow>
                Some (handleFileSelect_resume r
                        (emit fx (w\<lparr> analysing := without k (analysing w) \<rparr>))))
      else None)"
| "dispatch (TranslationSettles k remote) w =
     (if k < length (translating w)
      then (case translateAnalysis (apiKey w) (translating w ! k) remote of
              (r, fx) \<Rightarrow>
                Some (handleLanguageToggle_resume r
                        (emit fx (w\<lparr> translating := without k (translating w) \<rparr>))))
      else None)"
| "dispatch Unmount w = Some (cleanup (pdfUrl (app w)) (w\<lparr> mounted := False \<rparr>))"

text \<open>One event of a mounted component: its handler, then the commit of the render.\<close>

definition step :: "world \<Rightarrow> event \<Rightarrow> world option" where
  "step w e = (if mounted w then map_option (commit w) (dispatch e w) else None)"

fun run :: "world \<Rightarrow> event list \<Rightarrow> world option" where
  "run w [] = Some w"
| "run w (e # es) = (case step w e of None \<Rightarrow> None | Some w' \<Rightarrow> run w' es)"

text \<open>Counting in the effects.\<close>

fun is_analyze_call :: "effect \<Rightarrow> bool" where
  "is_analyze_call (Call_analyzePaper f) = True"
| "is_analyze_call other = False"

fun is_translate_call :: "effect \<Rightarrow> bool" where
  "is_translate_call (Call_translateAnalysis d) = True"
| "is_translate_call other = False"

definition analyze_calls :: "effect list \<Rightarrow> nat" where
  "analyze_calls fx = length (filter is_analyze_call fx)"

definition translate_calls :: "effect list \<Rightarrow> nat" where
  "translate_calls fx = length (filter is_translate_call fx)"

definition revocations :: "nat \<Rightarrow> effect list \<Rightarrow> nat" where
  "revocations u fx = length (filter (\<lambda>e. e = RevokeObjectURL u) fx)"

fun is_creation_of :: "nat \<Rightarrow> effect \<Rightarrow> bool" where
  "is_creation_of u (CreateObjectURL f v) = (v = u)"
| "is_creation_of u other = False"

definition creations :: "nat \<Rightarrow> effect list \<Rightarrow> nat" where
  "creations u fx = length (filter (is_creation_of u) fx)"

fun is_service_effect :: "effect \<Rightarrow> bool" where
  "is_service_effect (ReadAsDataURL f) = True"
| "is_service_effect (GenerateContent q) = True"
| "is_service_effect (ConsoleError l e) = True"
| "is_service_effect other = False"

fun is_alert :: "effect \<Rightarrow> bool" where
  "is_alert (Alert m) = True"
| "is_alert other = False"

text \<open>The files an event hands to \<^verbatim>\<open>handleFileSelect\<close>, and the events that end a session.\<close>

fun selects :: "event \<Rightarrow> bool" where
  "selects (Drop files) = (case handleDrop files of OnFileSelect f \<Rightarrow> True | _ \<Rightarrow> False)"
| "selects (Change files) = (case handleChange files of OnFileSelect f \<Rightarrow> True | _ \<Rightarrow> False)"
| "selects other = False"

fun ends_session :: "event \<Rightarrow> bool" where
  "ends_session ClickReset = True"
| "ends_session e = selects e"

text \<open>
  Two invariants of the controller. For an object URL \<open>u\<close>: it has been created once if
  the browser has handed it out and never otherwise, and it has been revoked once unless
  it is the URL of the mounted component, which has not been revoked. For translations:
  at most one call is awaited, and while one is, the flag is set, nothing is cached and
  the language is \<^verbatim>\<open>en\<close>.
\<close>

definition url_inv :: "nat \<Rightarrow> world \<Rightarrow> bool" where
  "url_inv u w =
     (creations u (log w) = (if u < nextUrl w then 1 else 0)
    \<and> revocations u (log w) =
            (if u < nextUrl w \<and> \<not> (mounted w \<and> pdfUrl (app w) = Some u) then 1 else 0)
    \<and> (pdfUrl (app w) = Some u \<longrightarrow> u < nextUrl w))"

definition translation_inv :: "world \<Rightarrow> bool" where
  "translation_inv w =
     (length (translating w) \<le> 1
    \<and> (translating w \<noteq> [] \<longrightarrow>
          isTranslating (app w) \<and> \<not> truthy (translatedData (app w)) \<and> language (app w) = En))"

text \<open>The events that ask for the translation: the clicks on the button of \<^verbatim>\<open>zh\<close>.\<close>

fun asks_translation :: "event \<Rightarrow> bool" where
  "asks_translation (ClickLanguage l) = (l = Zh)"
| "asks_translation e = False"

section \<open>The document view (\<^verbatim>\<open>components/PdfViewer.tsx\<close>)\<close>

text \<open>
  \<^verbatim>\<open>parseInt(s)\<close> without a radix: leading white space is skipped, a sign is read, a
  prefix \<^verbatim>\<open>0x\<close> or \<^verbatim>\<open>0X\<close> selects radix 16, and the longest run of digits of the radix
  is the value; without any digit the result is \<^verbatim>\<open>NaN\<close>, here \<open>None\<close>. Characters are
  code units below 256, so the white space beyond U+00A0 is not represented; the value is
  the exact integer, which the comparisons of the source cannot tell from its double.
\<close>

definition isWhiteSpace :: "char \<Rightarrow> bool" where
  "isWhiteSpace c = (of_char c \<in> {9, 10, 11, 12, 13, 32, 160 :: nat})"

definition digit_value :: "char \<Rightarrow> nat option" where
  "digit_value c =
     (let n = (of_char c :: nat)
      in if 48 \<le> n \<and> n \<le> 57 then Some (n - 48)
         else if 97 \<le> n \<and> n \<le> 122 then Some (n - 87)
         else if 65 \<le> n \<and> n \<le> 90 then Some (n - 55)
         else None)"

definition is_digit :: "nat \<Rightarrow> char \<Rightarrow> bool" where
  "is_digit R c = (case digit_value c of Some d \<Rightarrow> d < R | None \<Rightarrow> False)"

fun number_of :: "nat \<Rightarrow> nat \<Rightarrow> string \<Rightarrow> nat" where
  "number_of R acc [] = acc"
| "number_of R acc (c # cs) =
     (case digit_value c of
        Some d \<Rightarrow> number_of R (acc * R + d) cs
      | None \<Rightarrow> acc)"

definition strip_sign :: "string \<Rightarrow> int \<times> string" where
  "strip_sign s =
     (case s of
        [] \<Rightarrow> (1, s)
      | c # cs \<Rightarrow> if c = CHR ''-'' then (- 1, cs) else if c = CHR ''+'' then (1, cs) else (1, s))"

definition strip_prefix :: "string \<Rightarrow> nat \<times> string" where
  "strip_prefix s =
     (if startsWith s ''0x'' \<or> startsWith s ''0X'' then (16, drop 2 s) else (10, s))"

definition parseInt :: "string \<Rightarrow> int option" where
  "parseInt inputString =
     (case strip_sign (dropWhile isWhiteSpace inputString) of
        (sign, s) \<Rightarrow>
          (case strip_prefix s of
             (R, t) \<Rightarrow>
               (let z = takeWhile (is_digit R) t
                in if z = [] then None else Some (sign * int (number_of R 0 z)))))"

text \<open>\<^verbatim>\<open>n.toString()\<close> of an integer.\<close>

fun digits :: "nat \<Rightarrow> string" where
  "digits n = (if n < 10 then [char_of (48 + n)] else digits (n div 10) @ [char_of (48 + n mod 10)])"

definition toString :: "int \<Rightarrow> string" where
  "toString i = (if i < 0 then CHR ''-'' # digits (nat (- i)) else digits (nat i))"

record PDFDocumentProxy =
  doc_numPages :: int

record PdfViewer =
  pdfDoc :: "PDFDocumentProxy option"
  pageNum :: int
  pageInput :: string
  numPages :: int
  scale :: real
  isLoadingPdf :: bool

definition init_viewer :: PdfViewer where
  "init_viewer =
     \<lparr> pdfDoc = None, pageNum = 1, pageInput = ''1'', numPages = 0, scale = 1.0,
       isLoadingPdf = True \<rparr>"

text \<open>\<^verbatim>\<open>loadPdf\<close> after its \<^verbatim>\<open>await\<close>, on the outcome of \<^verbatim>\<open>getDocument(url).promise\<close>.\<close>

definition loadPdf_resume :: "PDFDocumentProxy outcome \<Rightarrow> PdfViewer \<Rightarrow> PdfViewer" where
  "loadPdf_resume r v =
     (case r of
        Resolved doc \<Rightarrow>
          v\<lparr> pdfDoc := Some doc, numPages := doc_numPages doc, pageNum := 1,
             pageInput := ''1'', scale := 1.0, isLoadingPdf := False \<rparr>
      | Rejected e \<Rightarrow> v\<lparr> isLoadingPdf := False \<rparr>)"

definition changePage :: "int \<Rightarrow> PdfViewer \<Rightarrow> PdfViewer" where
  "changePage delta v = v\<lparr> pageNum := min (max 1 (pageNum v + delta)) (numPages v) \<rparr>"

definition handlePageSubmit :: "PdfViewer \<Rightarrow> PdfViewer" where
  "handlePageSubmit v =
     (case parseInt (pageInput v) of
        Some p \<Rightarrow> if p \<ge> 1 \<and> p \<le> numPages v then v\<lparr> pageNum := p \<rparr>
                  else v\<lparr> pageInput := toString (pageNum v) \<rparr>
      | None \<Rightarrow> v\<lparr> pageInput := toString (pageNum v) \<rparr>)"

definition handleZoom :: "real \<Rightarrow> PdfViewer \<Rightarrow> PdfViewer" where
  "handleZoom delta v = v\<lparr> scale := min (max 0.5 (scale v + delta)) 3.0 \<rparr>"

record WheelEvent =
  ctrlKey :: bool
  deltaY :: real

record Container =
  scrollTop :: real
  scrollHeight :: real
  clientHeight :: real

text \<open>
  The wheel listener is registered by an effect hook and keeps the \<^verbatim>\<open>pageNum\<close>,
  \<^verbatim>\<open>numPages\<close> and \<^verbatim>\<open>isLoading\<close> of the render in which the hook ran: its tests
  read that state, \<open>closure\<close>, while its updates \<^verbatim>\<open>setPageNum(prev => prev + 1)\<close> and
  \<^verbatim>\<open>setScale(prev => ...)\<close> apply to the state as it is now.
\<close>

definition onWheel :: "PdfViewer \<Rightarrow> WheelEvent \<Rightarrow> Container \<Rightarrow> PdfViewer \<Rightarrow> PdfViewer" where
  "onWheel closure e container v =
     (if ctrlKey e
      then (if deltaY e < 0 then v\<lparr> scale := min (scale v + 0.1) 3.0 \<rparr>
            else v\<lparr> scale := max (scale v - 0.1) 0.5 \<rparr>)
      else if isLoadingPdf closure then v
      else
        (let isAtTop = (scrollTop container \<le> 0);
             isAtBottom = (\<bar>scrollHeight container - clientHeight container - scrollTop container\<bar> \<le> 1)
         in if deltaY e > 0 \<and> isAtBottom
            then (if pageNum closure < numPages closure then v\<lparr> pageNum := pageNum v + 1 \<rparr> else v)
            else if deltaY e < 0 \<and> isAtTop
            then (if pageNum closure > 1 then v\<lparr> pageNum := pageNum v - 1 \<rparr> else v)
            else v))"

text \<open>The effect hook on \<^verbatim>\<open>[pageNum]\<close> writes the page number back into the entry.\<close>

definition sync_input :: "PdfViewer \<Rightarrow> PdfViewer \<Rightarrow> PdfViewer" where
  "sync_input old v =
     (if pageNum v \<noteq> pageNum old then v\<lparr> pageInput := toString (pageNum v) \<rparr> else v)"

text \<open>
  The mounted view: the state hooks, and the state that the registered wheel listener
  has captured, which is the state at the last run of the effect hooks. A run of the
  effect hooks writes the page number into the entry if it has changed and registers a
  new wheel listener.
\<close>

record Mounted =
  hooks :: PdfViewer
  wheel_closure :: PdfViewer

definition init_mounted :: Mounted where
  "init_mounted = \<lparr> hooks = init_viewer, wheel_closure = init_viewer \<rparr>"

definition run_effects :: "Mounted \<Rightarrow> Mounted" where
  "run_effects m =
     (let v = sync_input (wheel_closure m) (hooks m)
      in \<lparr> hooks = v, wheel_closure = v \<rparr>)"

text \<open>
  The events of the view. The button to the previous page is disabled while
  \<^verbatim>\<open>pageNum <= 1\<close>, the one to the next page while \<^verbatim>\<open>pageNum >= numPages\<close>. The
  handlers of the buttons and of the form are called by the framework, which runs the
  pending effect hooks before it handles the event and after it; the wheel listener is
  called by the browser, and the effect hooks that follow its updates run later, as do
  those that follow the loading of the document.
\<close>

datatype viewer_event =
    LoadSettles "PDFDocumentProxy outcome"
  | ClickPrevious
  | ClickNext
  | TypePage string
  | SubmitPage
  | WheelOn WheelEvent Container
  | ClickZoomOut
  | ClickZoomIn
  | EffectsRun

fun vhandle :: "viewer_event \<Rightarrow> PdfViewer \<Rightarrow> PdfViewer option" where
  "vhandle ClickPrevious v = (if pageNum v \<le> 1 then None else Some (changePage (- 1) v))"
| "vhandle ClickNext v = (if pageNum v \<ge> numPages v then None else Some (changePage 1 v))"
| "vhandle (TypePage s) v = Some (v\<lparr> pageInput := s \<rparr>)"
| "vhandle SubmitPage v = Some (handlePageSubmit v)"
| "vhandle ClickZoomOut v = Some (handleZoom (- 0.1) v)"
| "vhandle ClickZoomIn v = Some (handleZoom 0.1 v)"
| "vhandle e v = None"

fun vstep :: "Mounted \<Rightarrow> viewer_event \<Rightarrow> Mounted option" where
  "vstep m (LoadSettles r) = Some (m\<lparr> hooks := loadPdf_resume r (hooks m) \<rparr>)"
| "vstep m (WheelOn e c) = Some (m\<lparr> hooks := onWheel (wheel_closure m) e c (hooks m) \<rparr>)"
| "vstep m EffectsRun = Some (run_effects m)"
| "vstep m e =
     (case vhandle e (hooks (run_effects m)) of
        None \<Rightarrow> None
      | Some v \<Rightarrow> Some (run_effects ((run_effects m)\<lparr> hooks := v \<rparr>)))"

fun vrun :: "Mounted \<Rightarrow> viewer_event list \<Rightarrow> Mounted option" where
  "vrun m [] = Some m"
| "vrun m (e # es) = (case vstep m e of None \<Rightarrow> None | Some m' \<Rightarrow> vrun m' es)"

subsection \<open>Rendering a page\<close>

text \<open>
  \<^verbatim>\<open>renderPage\<close> is an asynchronous function: a call runs until it awaits, and goes on
  when what it awaits has settled; other calls may start in between. A call is kept with
  the \<^verbatim>\<open>pageNum\<close> and \<^verbatim>\<open>scale\<close> of its closure and the place where it is suspended:
  at the cancellation of the previous task, at \<^verbatim>\<open>pdfDoc.getPage\<close>, or at the promise of
  the render task it has started. A render task of the library paints the canvas while it
  runs; \<^verbatim>\<open>cancel()\<close> stops a running task, whose promise then rejects with a
  \<^verbatim>\<open>RenderingCancelledException\<close>.
\<close>

datatype task_status = Running | Cancelled | Completed | Failed

record RenderTask =
  task_page :: int
  task_scale :: real
  status :: task_status

datatype suspended = AwaitCancel | AwaitGetPage | AwaitRender nat | Returned

record call =
  call_pageNum :: int
  call_scale :: real
  waits :: suspended

record PageProxy =
  page_width :: real
  page_height :: real

record renderer =
  renderTaskRef :: "nat option"
  tasks :: "RenderTask list"
  calls :: "call list"
  has_canvas :: bool
  canvas_height :: real
  canvas_width :: real
  console :: "effect list"

definition init_renderer :: renderer where
  "init_renderer =
     \<lparr> renderTaskRef = None, tasks = [], calls = [], has_canvas = True,
       canvas_height = 150, canvas_width = 300, console = [] \<rparr>"

definition cancel :: "nat \<Rightarrow> renderer \<Rightarrow> renderer" where
  "cancel t r =
     (if t < length (tasks r) \<and> status (tasks r ! t) = Running
      then r\<lparr> tasks := (tasks r)[t := (tasks r ! t)\<lparr> status := Cancelled \<rparr>] \<rparr>
      else r)"

text \<open>\<^verbatim>\<open>renderPage\<close> up to its first \<^verbatim>\<open>await\<close>, with the state of the closure.\<close>

definition renderPage_start :: "PdfViewer \<Rightarrow> renderer \<Rightarrow> renderer" where
  "renderPage_start v r =
     (if pdfDoc v = None \<or> \<not> has_canvas r then r
      else
        (case renderTaskRef r of
           Some t \<Rightarrow>
             (cancel t r)\<lparr> calls := calls r @
                [\<lparr> call_pageNum = pageNum v, call_scale = scale v, waits = AwaitCancel \<rparr>] \<rparr>
         | None \<Rightarrow>
             r\<lparr> calls := calls r @
                [\<lparr> call_pageNum = pageNum v, call_scale = scale v, waits = AwaitGetPage \<rparr>] \<rparr>))"

fun name_of :: "thrown \<Rightarrow> string option" where
  "name_of (ErrorObj n m) = Some n"
| "name_of (OtherValue n m) = n"

text \<open>The \<^verbatim>\<open>catch\<close> block of \<^verbatim>\<open>renderPage\<close>.\<close>

definition catch_render :: "thrown \<Rightarrow> renderer \<Rightarrow> renderer" where
  "catch_render e r =
     (if name_of e \<noteq> Some ''RenderingCancelledException''
      then r\<lparr> console := console r @ [ConsoleError ''Render error:'' (Some e)] \<rparr>
      else r)"

text \<open>What a suspended call is resumed with.\<close>

datatype answer =
    CancelReturned
  | GotPage "PageProxy outcome" bool
  | RenderSettled "unit outcome"

definition returned :: "nat \<Rightarrow> renderer \<Rightarrow> renderer" where
  "returned i r = r\<lparr> calls := (calls r)[i := (calls r ! i)\<lparr> waits := Returned \<rparr>] \<rparr>"

definition set_status :: "nat \<Rightarrow> task_status \<Rightarrow> renderer \<Rightarrow> renderer" where
  "set_status t s r = r\<lparr> tasks := (tasks r)[t := (tasks r ! t)\<lparr> status := s \<rparr>] \<rparr>"

definition renderPage_resume :: "nat \<Rightarrow> answer \<Rightarrow> renderer \<Rightarrow> renderer option" where
  "renderPage_resume i a r =
     (if i < length (calls r) then
        (let c = calls r ! i in
         case (waits c, a) of
           (AwaitCancel, CancelReturned) \<Rightarrow>
             Some (r\<lparr> calls := (calls r)[i := c\<lparr> waits := AwaitGetPage \<rparr>] \<rparr>)
         | (AwaitGetPage, GotPage (Rejected e) ctx) \<Rightarrow> Some (returned i (catch_render e r))
         | (AwaitGetPage, GotPage (Resolved pg) ctx) \<Rightarrow>
             if \<not> ctx then Some (returned i r)
             else
               (let t = length (tasks r)
                in Some (r\<lparr> canvas_height := page_height pg * call_scale c,
                            canvas_width := page_width pg * call_scale c,
                            tasks := tasks r @
                              [\<lparr> task_page = call_pageNum c, task_scale = call_scale c,
                                 status = Running \<rparr>],
                            renderTaskRef := Some t,
                            calls := (calls r)[i := c\<lparr> waits := AwaitRender t \<rparr>] \<rparr>))
         | (AwaitRender t, RenderSettled s) \<Rightarrow>
             if t < length (tasks r) then
               (if status (tasks r ! t) = Cancelled
                then Some (returned i (catch_render
                        (ErrorObj ''RenderingCancelledException''
                           (''Rendering cancelled, page '' @ toString (task_page (tasks r ! t)))) r))
                else
                  (case s of
                     Resolved u \<Rightarrow> Some (returned i (set_status t Completed r))
                   | Rejected e \<Rightarrow> Some (returned i (catch_render e (set_status t Failed r)))))
             else None
         | _ \<Rightarrow> None)
      else None)"

datatype render_event =
    Render PdfViewer
  | Resume nat answer

fun rstep :: "renderer \<Rightarrow> render_event \<Rightarrow> renderer option" where
  "rstep r (Render v) = Some (renderPage_start v r)"
| "rstep r (Resume i a) = renderPage_resume i a r"

fun rrun :: "renderer \<Rightarrow> render_event list \<Rightarrow> renderer option" where
  "rrun r [] = Some r"
| "rrun r (e # es) = (case rstep r e of None \<Rightarrow> None | Some r' \<Rightarrow> rrun r' es)"

section \<open>Sample inputs\<close>

definition paper_pdf :: File where
  "paper_pdf = \<lparr> name = ''paper.pdf'', mime = ''application/pdf'', content = ''%PDF-1.7'' \<rparr>"

definition notes_txt :: File where
  "notes_txt = \<lparr> name = ''notes.txt'', mime = ''text/plain'', content = ''to do'' \<rparr>"

definition paper_dataURL :: string where
  "paper_dataURL = ''data:application/pdf;base64,JVBERi0xLjc=''"

definition full_record :: json where
  "full_record = JObj
     [(''problemSolved'', JStr ''Slow inference''),
      (''innovations'', JArr [JStr ''Sparse attention'']),
      (''comparisonMethods'', JArr [JStr ''Dense baseline'']),
      (''limitations'', JArr [JStr ''Small benchmark'']),
      (''summary'', JStr ''A faster model'')]"

definition record_without_summary :: json where
  "record_without_summary = JObj
     [(''problemSolved'', JStr ''Slow inference''),
      (''innovations'', JArr [JStr ''Sparse attention'']),
      (''comparisonMethods'', JArr [JStr ''Dense baseline'']),
      (''limitations'', JArr [JStr ''Small benchmark''])]"

text \<open>A file is selected and analysed; then the translation is asked for.\<close>

definition analysed :: "event list" where
  "analysed =
     [Change [paper_pdf],
      AnalysisSettles 0 (Resolved paper_dataURL) (Resolved (Some (Json full_record)))]"

definition service_down :: thrown where
  "service_down = ErrorObj ''Error'' ''503 Service Unavailable''"

text \<open>
  A document of three pages. With page 1 on the canvas the page number becomes 2 and,
  before \<^verbatim>\<open>getPage(2)\<close> has answered, 3; both pages arrive, the render of page 3
  finishes, then the render of page 2.
\<close>

definition three_pages :: PDFDocumentProxy where
  "three_pages = \<lparr> doc_numPages = 3 \<rparr>"

definition on_page :: "int \<Rightarrow> PdfViewer" where
  "on_page n = \<lparr> pdfDoc = Some three_pages, pageNum = n, pageInput = toString n, numPages = 3,
                 scale = 1.0, isLoadingPdf = False \<rparr>"

definition page_a4 :: PageProxy where
  "page_a4 = \<lparr> page_width = 595, page_height = 842 \<rparr>"

definition first_page_shown :: "render_event list" where
  "first_page_shown =
     [Render (on_page 1),
      Resume 0 (GotPage (Resolved page_a4) True),
      Resume 0 (RenderSettled (Resolved ()))]"

definition two_quick_page_changes :: "render_event list" where
  "two_quick_page_changes =
     [Render (on_page 2),
      Resume 1 CancelReturned,
      Render (on_page 3),
      Resume 2 CancelReturned,
      Resume 1 (GotPage (Resolved page_a4) True),
      Resume 2 (GotPage (Resolved page_a4) True)]"

definition both_renders_finish :: "render_event list" where
  "both_renders_finish =
     [Resume 2 (RenderSettled (Resolved ())),
      Resume 1 (RenderSettled (Resolved ()))]"

text \<open>
  A turn of the wheel down and one up, over a page that fits its container. The second
  page of three is shown, and the wheel turns twice before the effect hooks run.
\<close>

definition fits :: Container where
  "fits = \<lparr> scrollTop = 0, scrollHeight = 500, clientHeight = 500 \<rparr>"

definition wheel_down :: viewer_event where
  "wheel_down = WheelOn \<lparr> ctrlKey = False, deltaY = 100 \<rparr> fits"

definition wheel_up :: viewer_event where
  "wheel_up = WheelOn \<lparr> ctrlKey = False, deltaY = - 100 \<rparr> fits"

definition second_page_shown :: "viewer_event list" where
  "second_page_shown = [LoadSettles (Resolved three_pages), ClickNext]"

definition canvas_in_use :: thrown where
  "canvas_in_use = ErrorObj ''Error''
     ''Cannot use the same canvas during multiple render() operations. Use different canvas or ensure previous operations were cancelled or completed.''"

definition second_render_refused :: "render_event list" where
  "second_render_refused =
     [Resume 2 (RenderSettled (Rejected canvas_in_use)),
      Resume 1 (RenderSettled (Resolved ()))]"

definition pages_and_status :: "renderer \<Rightarrow> (int \<times> task_status) list" where
  "pages_and_status r = map (\<lambda>t. (task_page t, status t)) (tasks r)"

fun required_of :: "schema \<Rightarrow> string list" where
  "required_of (TypeOBJECT props req) = req"
| "required_of other = []"

fun is_request :: "effect \<Rightarrow> bool" where
  "is_request (GenerateContent q) = True"
| "is_request other = False"

section \<open>The analysis client: credential and schema\<close>

lemma read_response_json: "read_response (Resolved (Some (Json j))) = Inr j"
  by (simp add: read_response_def)

lemma read_response_not_json:
  "s \<noteq> [] \<Longrightarrow> read_response (Resolved (Some (NotJson s m))) = Inl (ErrorObj ''SyntaxError'' m)"
  by (simp add: read_response_def)

lemma analyzePaper_result:
  "truthy_string key \<Longrightarrow> fst (analyzePaper key f (Resolved u) remote) = read_response remote"
  by (simp add: analyzePaper_def processFileToBase64_def Let_def)

lemma translateAnalysis_result:
  "truthy_string key \<Longrightarrow> fst (translateAnalysis key d remote) = read_response remote"
  by (simp add: translateAnalysis_def Let_def)

text \<open>
  Claim C6. Without a configured credential (\<^verbatim>\<open>process.env.API_KEY\<close> undefined or
  empty), \<^verbatim>\<open>analyzePaper\<close> and \<^verbatim>\<open>translateAnalysis\<close> fail at once with the error that
  says the key is missing, and have done nothing before: the file has not been read and no
  request has been sent, whatever the reader and the service would have answered.
\<close>

theorem missing_credential_fails_before_any_request:
  assumes "\<not> truthy_string key"
  shows "analyzePaper key f reader remote =
           (Inl (ErrorObj ''Error''
                  ''API Key is missing. Please check your environment configuration.''), [])
       \<and> translateAnalysis key d remote =
           (Inl (ErrorObj ''Error'' ''API Key is missing.''), [])"
  using assms by (simp add: analyzePaper_def translateAnalysis_def)

theorem missing_credential_fails_before_any_request_witness:
  "\<not> truthy_string None
   \<and> analyzePaper None paper_pdf (Resolved paper_dataURL) (Resolved (Some (Json full_record))) =
       (Inl (ErrorObj ''Error''
              ''API Key is missing. Please check your environment configuration.''), [])
   \<and> translateAnalysis None full_record (Resolved (Some (Json full_record))) =
       (Inl (ErrorObj ''Error'' ''API Key is missing.''), [])"
  using missing_credential_fails_before_any_request
          [of None paper_pdf "Resolved paper_dataURL" "Resolved (Some (Json full_record))" full_record]
  by simp

lemma read_response_no_text:
  "read_response (Resolved None) = Inl (ErrorObj ''Error'' ''No response received from Gemini.'')"
  "read_response (Resolved (Some (NotJson [] m)))
     = Inl (ErrorObj ''Error'' ''No response received from Gemini.'')"
  by (simp_all add: read_response_def)

lemma analyzePaper_requests:
  "truthy_string key \<Longrightarrow>
   filter is_request (snd (analyzePaper key f (Resolved u) remote))
     = [GenerateContent (analyze_request (index_js (split_js CHR '','' u) 1))]"
  by (auto simp: analyzePaper_def processFileToBase64_def log_and_rethrow_def Let_def
           split: sum.splits)

lemma translateAnalysis_requests:
  "truthy_string key \<Longrightarrow>
   filter is_request (snd (translateAnalysis key d remote)) = [GenerateContent (translate_request d)]"
  by (auto simp: translateAnalysis_def log_and_rethrow_def Let_def split: sum.splits)

text \<open>
  Claim C5, as amended. With a credential and the file read, \<^verbatim>\<open>analyzePaper\<close> sends one
  request and \<^verbatim>\<open>translateAnalysis\<close> sends one request, each carrying the schema with its
  five required fields. Each fails with \<^verbatim>\<open>No response received from Gemini.\<close> when the
  response has no text or an empty one, and with the \<^verbatim>\<open>SyntaxError\<close> of the parser when
  the text is not empty and not JSON. A text that is JSON is returned as parsed: nothing
  compares the value with the schema, so a value that lacks a field is a result, not a
  failure.
\<close>

theorem responses_are_parsed_not_validated:
  assumes "truthy_string key"
  shows "(\<forall>j. fst (analyzePaper key f (Resolved u) (Resolved (Some (Json j)))) = Inr j)
       \<and> (\<forall>j. fst (translateAnalysis key d (Resolved (Some (Json j)))) = Inr j)
       \<and> (\<forall>s m. s \<noteq> [] \<longrightarrow>
            fst (analyzePaper key f (Resolved u) (Resolved (Some (NotJson s m))))
              = Inl (ErrorObj ''SyntaxError'' m))
       \<and> (\<forall>s m. s \<noteq> [] \<longrightarrow>
            fst (translateAnalysis key d (Resolved (Some (NotJson s m))))
              = Inl (ErrorObj ''SyntaxError'' m))
       \<and> responseSchema (analyze_request b) = analysisSchema
       \<and> responseSchema (translate_request d) = analysisSchema
       \<and> required_of analysisSchema =
           [''problemSolved'', ''innovations'', ''comparisonMethods'', ''limitations'', ''summary'']
       \<and> (\<forall>remote. filter is_request (snd (analyzePaper key f (Resolved u) remote))
                   = [GenerateContent (analyze_request (index_js (split_js CHR '','' u) 1))])
       \<and> (\<forall>remote. filter is_request (snd (translateAnalysis key d remote))
                   = [GenerateContent (translate_request d)])
       \<and> (\<forall>m. fst (analyzePaper key f (Resolved u) (Resolved None))
                 = Inl (ErrorObj ''Error'' ''No response received from Gemini.'')
              \<and> fst (analyzePaper key f (Resolved u) (Resolved (Some (NotJson [] m))))
                 = Inl (ErrorObj ''Error'' ''No response received from Gemini.'')
              \<and> fst (translateAnalysis key d (Resolved None))
                 = Inl (ErrorObj ''Error'' ''No response received from Gemini.'')
              \<and> fst (translateAnalysis key d (Resolved (Some (NotJson [] m))))
                 = Inl (ErrorObj ''Error'' ''No response received from Gemini.''))"
proof -
  have 1: "(\<forall>j. fst (analyzePaper key f (Resolved u) (Resolved (Some (Json j)))) = Inr j)
       \<and> (\<forall>j. fst (translateAnalysis key d (Resolved (Some (Json j)))) = Inr j)
       \<and> (\<forall>s m. s \<noteq> [] \<longrightarrow>
            fst (analyzePaper key f (Resolved u) (Resolved (Some (NotJson s m))))
              = Inl (ErrorObj ''SyntaxError'' m))
       \<and> (\<forall>s m. s \<noteq> [] \<longrightarrow>
            fst (translateAnalysis key d (Resolved (Some (NotJson s m))))
              = Inl (ErrorObj ''SyntaxError'' m))
       \<and> responseSchema (analyze_request b) = analysisSchema
       \<and> responseSchema (translate_request d) = analysisSchema
       \<and> required_of analysisSchema =
           [''problemSolved'', ''innovations'', ''comparisonMethods'', ''limitations'', ''summary'']"
    using assms
    by (simp add: analyzePaper_result translateAnalysis_result read_response_json
          read_response_not_json analyze_request_def translate_request_def analysisSchema_def)
  have 2: "filter is_request (snd (analyzePaper key f (Resolved u) remote))
                   = [GenerateContent (analyze_request (index_js (split_js CHR '','' u) 1))]"
    for remote
    using analyzePaper_requests [OF assms] .
  have 3: "filter is_request (snd (translateAnalysis key d remote))
                   = [GenerateContent (translate_request d)]" for remote
    using translateAnalysis_requests [OF assms] .
  have 4: "fst (analyzePaper key f (Resolved u) (Resolved None))
                 = Inl (ErrorObj ''Error'' ''No response received from Gemini.'')
              \<and> fst (analyzePaper key f (Resolved u) (Resolved (Some (NotJson [] m))))
                 = Inl (ErrorObj ''Error'' ''No response received from Gemini.'')
              \<and> fst (translateAnalysis key d (Resolved None))
                 = Inl (ErrorObj ''Error'' ''No response received from Gemini.'')
              \<and> fst (translateAnalysis key d (Resolved (Some (NotJson [] m))))
                 = Inl (ErrorObj ''Error'' ''No response received from Gemini.'')" for m
    using assms
    by (simp add: analyzePaper_result translateAnalysis_result read_response_no_text)
  from 1 2 3 4 show ?thesis by blast
qed

theorem responses_are_parsed_not_validated_witness:
  "truthy_string (Some ''key'')
   \<and> fst (analyzePaper (Some ''key'') paper_pdf (Resolved paper_dataURL)
            (Resolved (Some (Json record_without_summary)))) = Inr record_without_summary
   \<and> fst (translateAnalysis (Some ''key'') full_record
            (Resolved (Some (Json record_without_summary)))) = Inr record_without_summary
   \<and> ''<html>'' \<noteq> []
   \<and> fst (analyzePaper (Some ''key'') paper_pdf (Resolved paper_dataURL)
            (Resolved (Some (NotJson ''<html>'' ''Unexpected token <''))))
       = Inl (ErrorObj ''SyntaxError'' ''Unexpected token <'')
   \<and> fst (translateAnalysis (Some ''key'') full_record
            (Resolved (Some (NotJson ''<html>'' ''Unexpected token <''))))
       = Inl (ErrorObj ''SyntaxError'' ''Unexpected token <'')
   \<and> (\<exists>q. filter is_request
              (snd (analyzePaper (Some ''key'') paper_pdf (Resolved paper_dataURL)
                      (Resolved (Some (Json record_without_summary)))))
            = [GenerateContent q]
          \<and> responseSchema q = analysisSchema)
   \<and> fst (analyzePaper (Some ''key'') paper_pdf (Resolved paper_dataURL) (Resolved None))
       = Inl (ErrorObj ''Error'' ''No response received from Gemini.'')"
proof -
  have key: "truthy_string (Some ''key'')" by simp
  have ne: "''<html>'' \<noteq> []" by simp
  from responses_are_parsed_not_validated [OF key, of paper_pdf paper_dataURL full_record]
  show ?thesis using key ne by blast
qed

text \<open>
  The claim as stated fails: a response that is JSON but has no \<^verbatim>\<open>summary\<close> is the
  result of \<^verbatim>\<open>analyzePaper\<close>.
\<close>

theorem analyze_returns_record_without_summary:
  "fst (analyzePaper (Some ''key'') paper_pdf (Resolved paper_dataURL)
          (Resolved (Some (Json record_without_summary)))) = Inr record_without_summary
   \<and> \<not> is_PaperAnalysis record_without_summary"
  by (simp add: analyzePaper_def processFileToBase64_def read_response_def
        record_without_summary_def Let_def)

section \<open>Bookkeeping: effects and fields\<close>

lemma analyzePaper_effects: "e \<in> set (snd (analyzePaper key f reader remote)) \<Longrightarrow> is_service_effect e"
  by (auto simp: analyzePaper_def processFileToBase64_def log_and_rethrow_def Let_def
           split: if_splits outcome.splits sum.splits)

lemma translateAnalysis_effects: "e \<in> set (snd (translateAnalysis key d remote)) \<Longrightarrow> is_service_effect e"
  by (auto simp: translateAnalysis_def log_and_rethrow_def Let_def split: if_splits sum.splits)

lemma revocations_simps [simp]:
  "revocations u [] = 0"
  "revocations u (xs @ ys) = revocations u xs + revocations u ys"
  "revocations u (e # xs) = (if e = RevokeObjectURL u then 1 else 0) + revocations u xs"
  by (simp_all add: revocations_def)

lemma creations_simps [simp]:
  "creations u [] = 0"
  "creations u (xs @ ys) = creations u xs + creations u ys"
  "creations u (e # xs) = (if is_creation_of u e then 1 else 0) + creations u xs"
  by (simp_all add: creations_def)

lemma analyze_calls_simps [simp]:
  "analyze_calls [] = 0"
  "analyze_calls (xs @ ys) = analyze_calls xs + analyze_calls ys"
  "analyze_calls (e # xs) = (if is_analyze_call e then 1 else 0) + analyze_calls xs"
  by (simp_all add: analyze_calls_def)

lemma translate_calls_simps [simp]:
  "translate_calls [] = 0"
  "translate_calls (xs @ ys) = translate_calls xs + translate_calls ys"
  "translate_calls (e # xs) = (if is_translate_call e then 1 else 0) + translate_calls xs"
  by (simp_all add: translate_calls_def)

lemma service_effect_kind:
  "is_service_effect e \<Longrightarrow>
     e \<noteq> RevokeObjectURL u \<and> \<not> is_creation_of u e \<and> \<not> is_analyze_call e \<and> \<not> is_translate_call e"
  by (cases e) simp_all

lemma service_effects_count:
  assumes "\<forall>e \<in> set fx. is_service_effect e"
  shows "revocations u fx = 0 \<and> creations u fx = 0 \<and> analyze_calls fx = 0 \<and> translate_calls fx = 0"
  using assms by (induction fx) (auto dest: service_effect_kind)

lemma analyzePaper_count [simp]:
  "revocations u (snd (analyzePaper key f reader remote)) = 0"
  "creations u (snd (analyzePaper key f reader remote)) = 0"
  "analyze_calls (snd (analyzePaper key f reader remote)) = 0"
  "translate_calls (snd (analyzePaper key f reader remote)) = 0"
  using service_effects_count [of "snd (analyzePaper key f reader remote)" u]
        analyzePaper_effects by blast+

lemma translateAnalysis_count [simp]:
  "revocations u (snd (translateAnalysis key d remote)) = 0"
  "creations u (snd (translateAnalysis key d remote)) = 0"
  "analyze_calls (snd (translateAnalysis key d remote)) = 0"
  "translate_calls (snd (translateAnalysis key d remote)) = 0"
  using service_effects_count [of "snd (translateAnalysis key d remote)" u]
        translateAnalysis_effects by blast+

subsection \<open>The fields after each handler\<close>

lemma emit_fields [simp]:
  "log (emit fx w) = log w @ fx"
  "app (emit fx w) = app w"
  "mounted (emit fx w) = mounted w"
  "nextUrl (emit fx w) = nextUrl w"
  "translating (emit fx w) = translating w"
  "analysing (emit fx w) = analysing w"
  "apiKey (emit fx w) = apiKey w"
  by (simp_all add: emit_def)

lemma cleanup_fields [simp]:
  "log (cleanup url w) = log w @ (case url of Some u \<Rightarrow> [RevokeObjectURL u] | None \<Rightarrow> [])"
  "app (cleanup url w) = app w"
  "mounted (cleanup url w) = mounted w"
  "nextUrl (cleanup url w) = nextUrl w"
  "translating (cleanup url w) = translating w"
  "analysing (cleanup url w) = analysing w"
  "apiKey (cleanup url w) = apiKey w"
  by (simp_all add: cleanup_def split: option.splits)

lemma handleFileSelect_start_fields [simp]:
  "log (handleFileSelect_start f w) =
     log w @ (case pdfUrl (app w) of Some u \<Rightarrow> [RevokeObjectURL u] | None \<Rightarrow> [])
           @ [CreateObjectURL f (nextUrl w), Call_analyzePaper f]"
  "nextUrl (handleFileSelect_start f w) = Suc (nextUrl w)"
  "mounted (handleFileSelect_start f w) = mounted w"
  "apiKey (handleFileSelect_start f w) = apiKey w"
  "translating (handleFileSelect_start f w) = translating w"
  "analysing (handleFileSelect_start f w) = analysing w @ [f]"
  "pdfUrl (app (handleFileSelect_start f w)) = Some (nextUrl w)"
  "translatedData (app (handleFileSelect_start f w)) = JNull"
  "language (app (handleFileSelect_start f w)) = En"
  "isTranslating (app (handleFileSelect_start f w)) = isTranslating (app w)"
  "state (app (handleFileSelect_start f w)) = \<lparr> isLoading = True, error = None, data = JNull \<rparr>"
  by (simp_all add: handleFileSelect_start_def Let_def emit_def split: option.splits)

lemma handleReset_fields [simp]:
  "log (handleReset w) = log w"
  "nextUrl (handleReset w) = nextUrl w"
  "mounted (handleReset w) = mounted w"
  "apiKey (handleReset w) = apiKey w"
  "translating (handleReset w) = translating w"
  "analysing (handleReset w) = analysing w"
  "pdfUrl (app (handleReset w)) = None"
  "translatedData (app (handleReset w)) = JNull"
  "language (app (handleReset w)) = En"
  "isTranslating (app (handleReset w)) = isTranslating (app w)"
  by (simp_all add: handleReset_def)

lemma handleFileSelect_resume_fields [simp]:
  "log (handleFileSelect_resume r w) =
     log w @ (case r of Inl err \<Rightarrow> [ConsoleError [] (Some err)] | Inr d \<Rightarrow> [])"
  "nextUrl (handleFileSelect_resume r w) = nextUrl w"
  "mounted (handleFileSelect_resume r w) = mounted w"
  "apiKey (handleFileSelect_resume r w) = apiKey w"
  "translating (handleFileSelect_resume r w) = translating w"
  "analysing (handleFileSelect_resume r w) = analysing w"
  "pdfUrl (app (handleFileSelect_resume r w)) = pdfUrl (app w)"
  "translatedData (app (handleFileSelect_resume r w)) = translatedData (app w)"
  "language (app (handleFileSelect_resume r w)) = language (app w)"
  "isTranslating (app (handleFileSelect_resume r w)) = isTranslating (app w)"
  by (simp_all add: handleFileSelect_resume_def emit_def split: sum.splits)

lemma handleLanguageToggle_start_fields [simp]:
  "log (handleLanguageToggle_start l w) =
     log w @ (if starts_translation l w then [Call_translateAnalysis (data (state (app w)))] else [])"
  "nextUrl (handleLanguageToggle_start l w) = nextUrl w"
  "mounted (handleLanguageToggle_start l w) = mounted w"
  "apiKey (handleLanguageToggle_start l w) = apiKey w"
  "translating (handleLanguageToggle_start l w) =
     translating w @ (if starts_translation l w then [data (state (app w))] else [])"
  "analysing (handleLanguageToggle_start l w) = analysing w"
  "pdfUrl (app (handleLanguageToggle_start l w)) = pdfUrl (app w)"
  "translatedData (app (handleLanguageToggle_start l w)) = translatedData (app w)"
  "language (app (handleLanguageToggle_start l w)) =
     (if starts_translation l w then language (app w) else l)"
  "isTranslating (app (handleLanguageToggle_start l w)) =
     (starts_translation l w \<or> isTranslating (app w))"
  "state (app (handleLanguageToggle_start l w)) = state (app w)"
  by (auto simp: handleLanguageToggle_start_def starts_translation_def emit_def)

lemma handleLanguageToggle_resume_fields [simp]:
  "log (handleLanguageToggle_resume r w) =
     log w @ (case r of
                Inl err \<Rightarrow> [ConsoleError ''Translation failed:'' (Some err),
                            Alert ''Translation failed. Please try again.'']
              | Inr d \<Rightarrow> [])"
  "nextUrl (handleLanguageToggle_resume r w) = nextUrl w"
  "mounted (handleLanguageToggle_resume r w) = mounted w"
  "apiKey (handleLanguageToggle_resume r w) = apiKey w"
  "translating (handleLanguageToggle_resume r w) = translating w"
  "analysing (handleLanguageToggle_resume r w) = analysing w"
  "pdfUrl (app (handleLanguageToggle_resume r w)) = pdfUrl (app w)"
  "translatedData (app (handleLanguageToggle_resume r w)) =
     (case r of Inl err \<Rightarrow> translatedData (app w) | Inr d \<Rightarrow> d)"
  "language (app (handleLanguageToggle_resume r w)) =
     (case r of Inl err \<Rightarrow> language (app w) | Inr d \<Rightarrow> Zh)"
  "isTranslating (app (handleLanguageToggle_resume r w)) = False"
  "state (app (handleLanguageToggle_resume r w)) = state (app w)"
  by (simp_all add: handleLanguageToggle_resume_def emit_def Let_def split: sum.splits)

lemma perform_pdfUrl:
  "pdfUrl (app (perform a w)) = (case a of OnFileSelect f \<Rightarrow> Some (nextUrl w) | _ \<Rightarrow> pdfUrl (app w))"
  by (cases a) simp_all

subsection \<open>The shape of a step\<close>

lemma commit_same: "pdfUrl (app w') = pdfUrl (app w) \<Longrightarrow> commit w w' = w'"
  by (simp add: commit_def)

lemma commit_from_None: "pdfUrl (app w) = None \<Longrightarrow> commit w w' = w'"
  by (simp add: commit_def cleanup_def)

lemma step_shape:
  assumes "step w e = Some w'"
  shows "mounted w \<and>
    (case e of
       Drop files \<Rightarrow> upload_shown w \<and> w' = perform (handleDrop files) w
     | Change files \<Rightarrow> upload_shown w \<and> w' = perform (handleChange files) w
     | ClickReset \<Rightarrow> (\<exists>u. pdfUrl (app w) = Some u \<and> w' = emit [RevokeObjectURL u] (handleReset w))
     | ClickLanguage l \<Rightarrow> toggle_shown w \<and> w' = handleLanguageToggle_start l w
     | AnalysisSettles k reader remote \<Rightarrow>
         k < length (analysing w) \<and>
         w' = handleFileSelect_resume (fst (analyzePaper (apiKey w) (analysing w ! k) reader remote))
                (emit (snd (analyzePaper (apiKey w) (analysing w ! k) reader remote))
                   (w\<lparr> analysing := without k (analysing w) \<rparr>))
     | TranslationSettles k remote \<Rightarrow>
         k < length (translating w) \<and>
         w' = handleLanguageToggle_resume
                (fst (translateAnalysis (apiKey w) (translating w ! k) remote))
                (emit (snd (translateAnalysis (apiKey w) (translating w ! k) remote))
                   (w\<lparr> translating := without k (translating w) \<rparr>))
     | Unmount \<Rightarrow> w' = cleanup (pdfUrl (app w)) (w\<lparr> mounted := False \<rparr>))"
proof -
  from assms have m: "mounted w" and h: "map_option (commit w) (dispatch e w) = Some w'"
    by (simp_all add: step_def split: if_splits)
  then obtain w1 where d: "dispatch e w = Some w1" and c: "w' = commit w w1"
    by auto
  show ?thesis
  proof (cases e)
    case (Drop files)
    with d have "upload_shown w" "w1 = perform (handleDrop files) w"
      by (simp_all split: if_splits)
    with c m Drop show ?thesis
      by (simp add: commit_from_None upload_shown_def)
  next
    case (Change files)
    with d have "upload_shown w" "w1 = perform (handleChange files) w"
      by (simp_all split: if_splits)
    with c m Change show ?thesis
      by (simp add: commit_from_None upload_shown_def)
  next
    case ClickReset
    with d have "reset_shown w" "w1 = handleReset w"
      by (simp_all split: if_splits)
    with c m ClickReset show ?thesis
      by (auto simp: commit_def cleanup_def reset_shown_def)
  next
    case (ClickLanguage l)
    with d have "toggle_shown w" "w1 = handleLanguageToggle_start l w"
      by (simp_all split: if_splits)
    with c m ClickLanguage show ?thesis
      by (simp add: commit_same)
  next
    case (AnalysisSettles k reader remote)
    with d have "k < length (analysing w)"
      "w1 = handleFileSelect_resume (fst (analyzePaper (apiKey w) (analysing w ! k) reader remote))
                (emit (snd (analyzePaper (apiKey w) (analysing w ! k) reader remote))
                   (w\<lparr> analysing := without k (analysing w) \<rparr>))"
      by (simp_all split: if_splits prod.splits)
    with c m AnalysisSettles show ?thesis
      by (simp add: commit_same)
  next
    case (TranslationSettles k remote)
    with d have "k < length (translating w)"
      "w1 = handleLanguageToggle_resume
                (fst (translateAnalysis (apiKey w) (translating w ! k) remote))
                (emit (snd (translateAnalysis (apiKey w) (translating w ! k) remote))
                   (w\<lparr> translating := without k (translating w) \<rparr>))"
      by (simp_all split: if_splits prod.splits)
    with c m TranslationSettles show ?thesis
      by (simp add: commit_same)
  next
    case Unmount
    with d have "w1 = cleanup (pdfUrl (app w)) (w\<lparr> mounted := False \<rparr>)"
      by simp
    with c m Unmount show ?thesis
      by (simp add: commit_same)
  qed
qed

lemmas controller_defs =
  step_def commit_def cleanup_def emit_def upload_shown_def reset_shown_def toggle_shown_def
  handleFileSelect_start_def handleFileSelect_resume_def handleReset_def
  handleLanguageToggle_start_def handleLanguageToggle_resume_def
  handleDrop_def handleChange_def init_def idle_def without_def Let_def

lemmas service_defs =
  analyzePaper_def translateAnalysis_def processFileToBase64_def read_response_def
  log_and_rethrow_def

lemmas sample_defs =
  analysed_def service_down_def full_record_def

section \<open>The controller: failures\<close>

text \<open>
  Claim C8, as amended. When \<^verbatim>\<open>analyzePaper\<close> fails, the state becomes: not loading, no
  data, and an error text. The text is \<^verbatim>\<open>Missing API Key. Please verify your settings.\<close>
  whenever the message of the thrown value includes \<^verbatim>\<open>API Key\<close>, as the message of
  the missing credential does; otherwise it is the message of the thrown \<^verbatim>\<open>Error\<close>, and
  \<^verbatim>\<open>An unexpected error occurred.\<close> when the thrown value is not an \<^verbatim>\<open>Error\<close>.
\<close>

theorem failed_analysis_reason:
  assumes "step w (AnalysisSettles k reader remote) = Some w'"
      and "fst (analyzePaper (apiKey w) (analysing w ! k) reader remote) = Inl err"
  shows "state (app w') = \<lparr> isLoading = False, error = Some (errorMessage err), data = JNull \<rparr>
       \<and> errorMessage err =
           (if (case message_of err of Some m \<Rightarrow> includes_js m ''API Key'' | None \<Rightarrow> False)
            then ''Missing API Key. Please verify your settings.''
            else (case err of
                    ErrorObj n m \<Rightarrow> m
                  | OtherValue n m \<Rightarrow> ''An unexpected error occurred.''))
       \<and> (\<not> truthy_string (apiKey w) \<longrightarrow>
            error (state (app w')) = Some ''Missing API Key. Please verify your settings.'')"
proof -
  have 1: "state (app w') = \<lparr> isLoading = False, error = Some (errorMessage err), data = JNull \<rparr>"
    using step_shape [OF assms(1)] assms(2)
    by (simp add: handleFileSelect_resume_def emit_def)
  have 2: "errorMessage err =
           (if (case message_of err of Some m \<Rightarrow> includes_js m ''API Key'' | None \<Rightarrow> False)
            then ''Missing API Key. Please verify your settings.''
            else (case err of
                    ErrorObj n m \<Rightarrow> m
                  | OtherValue n m \<Rightarrow> ''An unexpected error occurred.''))"
    by (cases err) (auto simp: errorMessage_def split: option.splits)
  have 3: "error (state (app w')) = Some ''Missing API Key. Please verify your settings.''"
    if "\<not> truthy_string (apiKey w)"
  proof -
    have "err = ErrorObj ''Error''
                  ''API Key is missing. Please check your environment configuration.''"
      using that assms(2) by (simp add: analyzePaper_def)
    then have "errorMessage err = ''Missing API Key. Please verify your settings.''"
      by (simp add: errorMessage_def)
    with 1 show ?thesis by simp
  qed
  from 1 2 3 show ?thesis by blast
qed

theorem failed_analysis_reason_witness:
  "\<exists>w'. step (handleFileSelect_start paper_pdf (init None))
            (AnalysisSettles 0 (Resolved paper_dataURL) (Resolved (Some (Json full_record)))) = Some w'
        \<and> fst (analyzePaper None paper_pdf (Resolved paper_dataURL)
                 (Resolved (Some (Json full_record))))
            = Inl (ErrorObj ''Error''
                    ''API Key is missing. Please check your environment configuration.'')
        \<and> \<not> truthy_string None
        \<and> error (state (app w')) = Some ''Missing API Key. Please verify your settings.''"
proof -
  let ?w = "handleFileSelect_start paper_pdf (init None)"
  let ?e = "AnalysisSettles 0 (Resolved paper_dataURL) (Resolved (Some (Json full_record)))"
  have k: "apiKey ?w = None" "analysing ?w = [paper_pdf]" "mounted ?w"
    by (simp_all add: init_def)
  then obtain w' where s: "step ?w ?e = Some w'"
    by (simp add: step_def analyzePaper_def)
  have f: "fst (analyzePaper (apiKey ?w) (analysing ?w ! 0) (Resolved paper_dataURL)
                  (Resolved (Some (Json full_record))))
           = Inl (ErrorObj ''Error''
                   ''API Key is missing. Please check your environment configuration.'')"
    using k by (simp add: analyzePaper_def)
  from failed_analysis_reason [OF s f] k s f show ?thesis by simp
qed

text \<open>
  The claim as stated fails: with a credential configured, a failure of the remote call
  whose message happens to include \<^verbatim>\<open>API Key\<close> is reported as a missing key, not by
  its message.
\<close>

theorem api_key_in_upstream_message:
  "map_option (\<lambda>w. error (state (app w)))
     (run (init (Some ''key''))
        [Change [paper_pdf],
         AnalysisSettles 0 (Resolved paper_dataURL)
           (Rejected (ErrorObj ''ApiError'' ''Quota exceeded for this API Key''))])
     = Some (Some ''Missing API Key. Please verify your settings.'')
   \<and> truthy_string (Some ''key'')
   \<and> fst (analyzePaper (Some ''key'') paper_pdf (Resolved paper_dataURL)
            (Rejected (ErrorObj ''ApiError'' ''Quota exceeded for this API Key'')))
       = Inl (ErrorObj ''ApiError'' ''Quota exceeded for this API Key'')"
  by (simp add: controller_defs service_defs errorMessage_def)

text \<open>
  Claim C4. When an awaited translation settles, the flag \<^verbatim>\<open>isTranslating\<close> is cleared,
  whatever the result. When \<^verbatim>\<open>translateAnalysis\<close> has failed, the language, the analysis
  state with its record, the cached translation and the record on display are what they
  were, and the failure is logged and reported to the user with an alert.
\<close>

theorem translation_failure_keeps_language:
  assumes "step w (TranslationSettles k remote) = Some w'"
  shows "\<not> isTranslating (app w')
       \<and> (\<forall>err. fst (translateAnalysis (apiKey w) (translating w ! k) remote) = Inl err \<longrightarrow>
             language (app w') = language (app w)
           \<and> state (app w') = state (app w)
           \<and> translatedData (app w') = translatedData (app w)
           \<and> currentAnalysis (app w') = currentAnalysis (app w)
           \<and> log w' = log w @ snd (translateAnalysis (apiKey w) (translating w ! k) remote)
                        @ [ConsoleError ''Translation failed:'' (Some err),
                           Alert ''Translation failed. Please try again.''])"
  using step_shape [OF assms]
  by (auto simp: currentAnalysis_def)

theorem translation_failure_keeps_language_witness:
  "\<exists>w w'. run (init (Some ''key'')) (analysed @ [ClickLanguage Zh]) = Some w
         \<and> step w (TranslationSettles 0 (Rejected service_down)) = Some w'
         \<and> fst (translateAnalysis (apiKey w) (translating w ! 0) (Rejected service_down))
             = Inl service_down
         \<and> \<not> isTranslating (app w')
         \<and> language (app w') = En
         \<and> data (state (app w')) = full_record
         \<and> currentAnalysis (app w') = full_record"
proof -
  obtain w where r: "run (init (Some ''key'')) (analysed @ [ClickLanguage Zh]) = Some w"
    and f: "mounted w" "translating w = [full_record]" "apiKey w = Some ''key''"
           "language (app w) = En" "data (state (app w)) = full_record"
    by (simp add: controller_defs service_defs sample_defs)
  have t: "fst (translateAnalysis (apiKey w) (translating w ! 0) (Rejected service_down))
             = Inl service_down"
    using f by (simp add: service_defs)
  obtain w' where s: "step w (TranslationSettles 0 (Rejected service_down)) = Some w'"
    using f by (simp add: step_def case_prod_unfold)
  from translation_failure_keeps_language [OF s] t f
  have "\<not> isTranslating (app w') \<and> language (app w') = En
        \<and> data (state (app w')) = full_record \<and> currentAnalysis (app w') = full_record"
    by (simp add: currentAnalysis_def)
  with r s t show ?thesis by blast
qed

section \<open>The upload surface: what is accepted\<close>

text \<open>
  Claim C9 at a file that is not a PDF. Dropped, the file is refused with an alert and
  nothing else changes. Chosen in the file picker, it is handed to \<^verbatim>\<open>handleFileSelect\<close>:
  the state is loading, \<^verbatim>\<open>analyzePaper\<close> is awaited on it, and no alert is shown.
\<close>

theorem picker_hands_over_a_text_file:
  "mime notes_txt \<noteq> ''application/pdf''
   \<and> map_option (\<lambda>w. (isLoading (state (app w)), analysing w, filter is_alert (log w)))
        (step (init (Some ''key'')) (Change [notes_txt])) = Some (True, [notes_txt], [])
   \<and> step (init (Some ''key'')) (Drop [notes_txt])
       = Some (emit [Alert ''Please upload a PDF file.''] (init (Some ''key'')))"
  by (simp add: controller_defs notes_txt_def)

section \<open>The language of the translation\<close>

text \<open>
  Claim C10. \<^verbatim>\<open>translateAnalysis\<close> takes the record only. The one request it sends has
  one part, the fixed prompt that asks for simplified Chinese followed by the record; the
  toggle of the controller ranges over the two languages, and the only call it makes
  passes the current record.
\<close>

theorem translation_target_is_fixed:
  "parts (translate_request d) = [TemplatePart translate_prompt d]
   \<and> includes_js translate_prompt ''into simplified Chinese''
   \<and> filter is_request (snd (translateAnalysis key d remote))
       = (if truthy_string key then [GenerateContent (translate_request d)] else [])
   \<and> (\<forall>l :: language. l = En \<or> l = Zh)
   \<and> (log (handleLanguageToggle_start l w) = log w
        \<or> l = Zh \<and> log (handleLanguageToggle_start l w)
                      = log w @ [Call_translateAnalysis (data (state (app w)))])"
proof -
  have 1: "includes_js translate_prompt ''into simplified Chinese''"
    by (simp add: translate_prompt_def)
  have 2: "filter is_request (snd (translateAnalysis key d remote))
       = (if truthy_string key then [GenerateContent (translate_request d)] else [])"
    by (auto simp: translateAnalysis_def Let_def log_and_rethrow_def split: sum.splits)
  have 3: "\<forall>l :: language. l = En \<or> l = Zh"
    using language.exhaust by blast
  have 4: "log (handleLanguageToggle_start l w) = log w
        \<or> l = Zh \<and> log (handleLanguageToggle_start l w)
                      = log w @ [Call_translateAnalysis (data (state (app w)))]"
    by (simp add: starts_translation_def)
  from 1 2 3 4 show ?thesis by (simp add: translate_request_def)
qed

theorem translation_target_is_fixed_witness:
  "parts (translate_request full_record) = [TemplatePart translate_prompt full_record]
   \<and> filter is_request (snd (translateAnalysis (Some ''key'') full_record (Resolved None)))
       = [GenerateContent (translate_request full_record)]"
  using translation_target_is_fixed [of full_record "Some ''key''" "Resolved None" Zh "init None"]
  by simp

section \<open>The controller: object URLs\<close>

lemma url_inv_init: "url_inv u (init key)"
  by (simp add: url_inv_def init_def)

lemma url_inv_perform:
  assumes "url_inv u w" "upload_shown w" "mounted w"
  shows "url_inv u (perform a w)"
  using assms by (cases a) (auto simp: url_inv_def upload_shown_def)

lemma url_inv_step:
  assumes "url_inv u w" "step w e = Some w'"
  shows "url_inv u w'"
proof (cases e)
  case (Drop files)
  with step_shape [OF assms(2)] assms(1) show ?thesis
    by (simp add: url_inv_perform)
next
  case (Change files)
  with step_shape [OF assms(2)] assms(1) show ?thesis
    by (simp add: url_inv_perform)
next
  case ClickReset
  with step_shape [OF assms(2)] assms(1) show ?thesis
    by (auto simp: url_inv_def)
next
  case (ClickLanguage l)
  with step_shape [OF assms(2)] assms(1) show ?thesis
    by (simp add: url_inv_def)
next
  case (AnalysisSettles k reader remote)
  with step_shape [OF assms(2)] assms(1) show ?thesis
    by (simp add: url_inv_def split: sum.splits)
next
  case (TranslationSettles k remote)
  with step_shape [OF assms(2)] assms(1) show ?thesis
    by (simp add: url_inv_def split: sum.splits)
next
  case Unmount
  with step_shape [OF assms(2)] assms(1) show ?thesis
    by (auto simp: url_inv_def split: option.splits)
qed

lemma url_inv_run:
  assumes "run w es = Some w'" "url_inv u w"
  shows "url_inv u w'"
  using assms
proof (induction es arbitrary: w)
  case Nil
  then show ?case by simp
next
  case (Cons e es)
  then obtain w1 where "step w e = Some w1" "run w1 es = Some w'"
    by (auto split: option.splits)
  with Cons show ?case
    using url_inv_step by blast
qed

text \<open>
  What \<^verbatim>\<open>handleFileSelect\<close> would do if it were called while a URL is set: its own
  \<^verbatim>\<open>revokeObjectURL\<close> and the cleanup of the effect hook would both revoke the URL. No
  event reaches this: the upload surface is rendered only while \<^verbatim>\<open>pdfUrl\<close> is null.
\<close>

lemma select_over_live_url:
  assumes "pdfUrl (app w) = Some u" "u < nextUrl w"
  shows "revocations u (log (commit w (handleFileSelect_start f w))) = revocations u (log w) + 2"
    and "\<not> upload_shown w"
  using assms by (auto simp: commit_def upload_shown_def)

text \<open>
  Claim C3. In every run of the controller, an object URL is never revoked twice; a URL
  that was never created is never revoked; a URL that was created and is no longer the
  current one has been revoked exactly once; the URL of the mounted component has been
  created once and not been revoked; and a reset revokes the current URL. (A file can be
  replaced only after a reset, since the upload surface is rendered only while no file is
  selected.)
\<close>

theorem object_url_released_exactly_once:
  assumes "run (init key) es = Some w"
  shows "revocations u (log w) \<le> 1
       \<and> (creations u (log w) = 0 \<longrightarrow> revocations u (log w) = 0)
       \<and> (creations u (log w) = 1 \<and> pdfUrl (app w) \<noteq> Some u \<longrightarrow> revocations u (log w) = 1)
       \<and> (mounted w \<and> pdfUrl (app w) = Some u \<longrightarrow>
            creations u (log w) = 1 \<and> revocations u (log w) = 0)
       \<and> (\<forall>w'. step w ClickReset = Some w' \<longrightarrow>
            (\<exists>v. pdfUrl (app w) = Some v \<and> log w' = log w @ [RevokeObjectURL v]))"
proof -
  have "url_inv u w"
    using url_inv_run [OF assms url_inv_init] .
  moreover have "\<exists>v. pdfUrl (app w) = Some v \<and> log w' = log w @ [RevokeObjectURL v]"
    if "step w ClickReset = Some w'" for w'
    using step_shape [OF that] by auto
  ultimately show ?thesis
    by (auto simp: url_inv_def split: if_splits)
qed

theorem object_url_released_exactly_once_witness:
  "(\<exists>w. run (init (Some ''key'')) [Change [paper_pdf], ClickReset] = Some w
       \<and> creations 0 (log w) = 1 \<and> pdfUrl (app w) \<noteq> Some 0
       \<and> revocations 0 (log w) = 1)
 \<and> (\<exists>w w'. run (init (Some ''key'')) [Change [paper_pdf]] = Some w
       \<and> mounted w \<and> pdfUrl (app w) = Some 0
       \<and> creations 0 (log w) = 1 \<and> revocations 0 (log w) = 0
       \<and> step w ClickReset = Some w'
       \<and> log w' = log w @ [RevokeObjectURL 0])"
proof -
  obtain w where r: "run (init (Some ''key'')) [Change [paper_pdf], ClickReset] = Some w"
    and f: "creations 0 (log w) = 1" "pdfUrl (app w) \<noteq> Some 0"
    by (simp add: controller_defs)
  from object_url_released_exactly_once [OF r, of 0] f
  have a: "revocations 0 (log w) = 1" by blast
  obtain v where q: "run (init (Some ''key'')) [Change [paper_pdf]] = Some v"
    and g: "mounted v" "pdfUrl (app v) = Some 0"
    by (simp add: controller_defs)
  obtain v' where s: "step v ClickReset = Some v'"
    using g by (simp add: step_def reset_shown_def)
  from object_url_released_exactly_once [OF q, of 0] g s
  have b: "creations 0 (log v) = 1 \<and> revocations 0 (log v) = 0
           \<and> log v' = log v @ [RevokeObjectURL 0]"
    by auto
  from r f a q g s b show ?thesis by blast
qed

section \<open>The controller: calls of the analysis client\<close>

lemma translation_inv_init: "translation_inv (init key)"
  by (simp add: translation_inv_def init_def)

lemma perform_translation [simp]:
  "translating (perform a w) = translating w"
  "isTranslating (app (perform a w)) = isTranslating (app w)"
  "translatedData (app (perform a w)) = (case a of OnFileSelect f \<Rightarrow> JNull | _ \<Rightarrow> translatedData (app w))"
  "language (app (perform a w)) = (case a of OnFileSelect f \<Rightarrow> En | _ \<Rightarrow> language (app w))"
  by (cases a; simp)+

lemma without_short: "length xs \<le> 1 \<Longrightarrow> k < length xs \<Longrightarrow> without k xs = []"
  by (cases xs) (auto simp: without_def)

lemma translation_inv_step:
  assumes "translation_inv w" "step w e = Some w'"
  shows "translation_inv w'"
proof (cases e)
  case (Drop files)
  with step_shape [OF assms(2)] assms(1) show ?thesis
    by (auto simp: translation_inv_def split: upload_action.splits)
next
  case (Change files)
  with step_shape [OF assms(2)] assms(1) show ?thesis
    by (auto simp: translation_inv_def split: upload_action.splits)
next
  case ClickReset
  with step_shape [OF assms(2)] assms(1) show ?thesis
    by (auto simp: translation_inv_def)
next
  case (ClickLanguage l)
  with step_shape [OF assms(2)] assms(1) show ?thesis
    by (cases "language (app w)")
       (auto simp: translation_inv_def toggle_shown_def starts_translation_def)
next
  case (AnalysisSettles k reader remote)
  with step_shape [OF assms(2)] assms(1) show ?thesis
    by (simp add: translation_inv_def)
next
  case (TranslationSettles k remote)
  with step_shape [OF assms(2)] assms(1) show ?thesis
    by (simp add: translation_inv_def without_short)
next
  case Unmount
  with step_shape [OF assms(2)] assms(1) show ?thesis
    by (simp add: translation_inv_def)
qed

lemma translation_inv_run:
  assumes "run w es = Some w'" "translation_inv w"
  shows "translation_inv w'"
  using assms
proof (induction es arbitrary: w)
  case Nil
  then show ?case by simp
next
  case (Cons e es)
  then obtain w1 where "step w e = Some w1" "run w1 es = Some w'"
    by (auto split: option.splits)
  with Cons show ?case
    using translation_inv_step by blast
qed

lemma perform_calls:
  assumes "upload_shown w"
  shows "analyze_calls (log (perform a w)) =
           analyze_calls (log w) + (case a of OnFileSelect f \<Rightarrow> 1 | _ \<Rightarrow> 0)"
    and "translate_calls (log (perform a w)) = translate_calls (log w)"
  using assms by (cases a; simp add: upload_shown_def)+

lemma step_calls:
  assumes "step w e = Some w'"
  shows "analyze_calls (log w') = analyze_calls (log w) + (if selects e then 1 else 0)"
    and "translate_calls (log w') \<le> translate_calls (log w) + (if asks_translation e then 1 else 0)"
proof -
  show "analyze_calls (log w') = analyze_calls (log w) + (if selects e then 1 else 0)"
    using step_shape [OF assms]
    by (cases e) (auto simp: perform_calls split: upload_action.splits sum.splits option.splits)
  show "translate_calls (log w') \<le> translate_calls (log w) + (if asks_translation e then 1 else 0)"
    using step_shape [OF assms]
    by (cases e)
       (auto simp: perform_calls starts_translation_def split: sum.splits option.splits)
qed

lemma run_analyze_calls:
  assumes "run w es = Some w'"
  shows "analyze_calls (log w') = analyze_calls (log w) + length (filter selects es)"
  using assms
proof (induction es arbitrary: w)
  case Nil
  then show ?case by simp
next
  case (Cons e es)
  then obtain w1 where s: "step w e = Some w1" and r: "run w1 es = Some w'"
    by (auto split: option.splits)
  from Cons.IH [OF r] step_calls(1) [OF s] show ?case by simp
qed

lemma cached_toggle:
  assumes "truthy (translatedData (app w))" "step w (ClickLanguage l) = Some w'"
  shows "log w' = log w" "language (app w') = l" "translating w' = translating w"
        "analysing w' = analysing w" "translatedData (app w') = translatedData (app w)"
  using step_shape [OF assms(2)] assms(1)
  by (simp_all add: starts_translation_def)

lemma run_translate_calls:
  assumes "run w es = Some w'"
  shows "translate_calls (log w') \<le> translate_calls (log w) + length (filter asks_translation es)"
  using assms
proof (induction es arbitrary: w)
  case Nil
  then show ?case by simp
next
  case (Cons e es)
  then obtain w1 where s: "step w e = Some w1" and r: "run w1 es = Some w'"
    by (auto split: option.splits)
  from Cons.IH [OF r] step_calls(2) [OF s] show ?case
    by (auto split: if_splits)
qed

lemma failed_translation:
  assumes "translation_inv w" "step w (TranslationSettles k remote) = Some w'"
      and "fst (translateAnalysis (apiKey w) (translating w ! k) remote) = Inl err"
  shows "\<not> truthy (translatedData (app w'))" "translating w' = []" "language (app w') = En"
        "translate_calls (log w') = translate_calls (log w)"
  using step_shape [OF assms(2)] assms(1,3)
  by (auto simp: translation_inv_def without_short)

lemma toggle_without_cache:
  assumes "\<not> truthy (translatedData (app w))" "language (app w) = En"
      and "step w (ClickLanguage Zh) = Some w'"
  shows "translate_calls (log w') = translate_calls (log w) + 1"
        "translating w' = translating w @ [data (state (app w))]"
  using step_shape [OF assms(3)] assms(1,2)
  by (simp_all add: starts_translation_def toggle_shown_def)

lemma cached_step:
  assumes "translation_inv w" "truthy (translatedData (app w))" "\<not> ends_session e"
      and "step w e = Some w'"
  shows "translatedData (app w') = translatedData (app w)
       \<and> translate_calls (log w') = translate_calls (log w)"
proof (cases e)
  case (Drop files)
  with step_shape [OF assms(4)] assms(3) show ?thesis
    by (auto simp: perform_calls split: upload_action.splits)
next
  case (Change files)
  with step_shape [OF assms(4)] assms(3) show ?thesis
    by (auto simp: perform_calls split: upload_action.splits)
next
  case ClickReset
  with assms(3) show ?thesis by simp
next
  case (ClickLanguage l)
  with cached_toggle [OF assms(2)] assms(4) show ?thesis by simp
next
  case (AnalysisSettles k reader remote)
  with step_shape [OF assms(4)] show ?thesis
    by (simp split: sum.splits)
next
  case (TranslationSettles k remote)
  with step_shape [OF assms(4)] assms(1,2) show ?thesis
    by (auto simp: translation_inv_def)
next
  case Unmount
  with step_shape [OF assms(4)] show ?thesis
    by (simp split: option.splits)
qed

lemma cached_run:
  assumes "run w es = Some w'" "translation_inv w" "truthy (translatedData (app w))"
      and "\<not> list_ex ends_session es"
  shows "translatedData (app w') = translatedData (app w)
       \<and> translate_calls (log w') = translate_calls (log w)"
  using assms
proof (induction es arbitrary: w)
  case Nil
  then show ?case by simp
next
  case (Cons e es)
  then obtain w1 where s: "step w e = Some w1" and r: "run w1 es = Some w'"
    by (auto split: option.splits)
  from Cons.prems have ne: "\<not> ends_session e" "\<not> list_ex ends_session es"
    by simp_all
  have c: "translatedData (app w1) = translatedData (app w)
           \<and> translate_calls (log w1) = translate_calls (log w)"
    using cached_step [OF Cons.prems(2,3) ne(1) s] .
  have i: "translation_inv w1"
    using translation_inv_step [OF Cons.prems(2) s] .
  from Cons.IH [OF r i _ ne(2)] c Cons.prems(3) show ?case by simp
qed

text \<open>
  Claim C1, as amended. In every run of the controller, \<^verbatim>\<open>analyzePaper\<close> has been called
  exactly once for each file handed to \<^verbatim>\<open>handleFileSelect\<close>; \<^verbatim>\<open>translateAnalysis\<close> has
  been called at most once for each click on the button of \<^verbatim>\<open>zh\<close>, no other event calls
  it, and at most one call is awaited at a time; with a translation cached, the toggle to
  \<^verbatim>\<open>zh\<close> switches at once and does nothing else, and \<^verbatim>\<open>translateAnalysis\<close> is not
  called again until a file is selected or the session is reset. A translation that
  fails calls nothing and leaves nothing cached, and the next click on \<^verbatim>\<open>zh\<close> calls
  \<^verbatim>\<open>translateAnalysis\<close> again, once.
\<close>

theorem calls_per_session:
  assumes "run (init key) es = Some w"
  shows "analyze_calls (log w) = length (filter selects es)
       \<and> translate_calls (log w) \<le> length (filter asks_translation es)
       \<and> length (translating w) \<le> 1
       \<and> (\<forall>e w'. step w e = Some w' \<longrightarrow>
             translate_calls (log w')
               \<le> translate_calls (log w) + (if asks_translation e then 1 else 0))
       \<and> (\<forall>w'. truthy (translatedData (app w)) \<and> step w (ClickLanguage Zh) = Some w' \<longrightarrow>
             log w' = log w \<and> language (app w') = Zh
           \<and> translating w' = translating w \<and> analysing w' = analysing w)
       \<and> (\<forall>es' w'. truthy (translatedData (app w)) \<and> \<not> list_ex ends_session es'
                  \<and> run w es' = Some w' \<longrightarrow>
             translate_calls (log w') = translate_calls (log w)
           \<and> translatedData (app w') = translatedData (app w))
       \<and> (\<forall>k remote err w'.
             step w (TranslationSettles k remote) = Some w'
           \<and> fst (translateAnalysis (apiKey w) (translating w ! k) remote) = Inl err \<longrightarrow>
             \<not> truthy (translatedData (app w')) \<and> translating w' = []
           \<and> translate_calls (log w') = translate_calls (log w)
           \<and> (\<forall>w''. step w' (ClickLanguage Zh) = Some w'' \<longrightarrow>
                  translate_calls (log w'') = translate_calls (log w') + 1
                \<and> translating w'' = [data (state (app w'))]))"
proof -
  have inv: "translation_inv w"
    using translation_inv_run [OF assms translation_inv_init] .
  have 1: "analyze_calls (log w) = length (filter selects es)"
    using run_analyze_calls [OF assms] by (simp add: init_def)
  have 2: "\<forall>e w'. step w e = Some w' \<longrightarrow>
             translate_calls (log w')
               \<le> translate_calls (log w) + (if asks_translation e then 1 else 0)"
    using step_calls(2) by blast
  have 3: "\<forall>w'. truthy (translatedData (app w)) \<and> step w (ClickLanguage Zh) = Some w' \<longrightarrow>
             log w' = log w \<and> language (app w') = Zh
           \<and> translating w' = translating w \<and> analysing w' = analysing w"
    using cached_toggle by blast
  have 4: "\<forall>es' w'. truthy (translatedData (app w)) \<and> \<not> list_ex ends_session es'
                  \<and> run w es' = Some w' \<longrightarrow>
             translate_calls (log w') = translate_calls (log w)
           \<and> translatedData (app w') = translatedData (app w)"
    using cached_run inv by blast
  have 5: "translate_calls (log w) \<le> length (filter asks_translation es)"
    using run_translate_calls [OF assms] by (simp add: init_def)
  have 6: "length (translating w) \<le> 1"
    using inv by (simp add: translation_inv_def)
  have 7: "\<not> truthy (translatedData (app w')) \<and> translating w' = []
           \<and> translate_calls (log w') = translate_calls (log w)
           \<and> (\<forall>w''. step w' (ClickLanguage Zh) = Some w'' \<longrightarrow>
                  translate_calls (log w'') = translate_calls (log w') + 1
                \<and> translating w'' = [data (state (app w'))])"
    if s: "step w (TranslationSettles k remote) = Some w'"
    and f: "fst (translateAnalysis (apiKey w) (translating w ! k) remote) = Inl err"
    for k remote err w'
  proof -
    note ft = failed_translation [OF inv s f]
    have "translate_calls (log w'') = translate_calls (log w') + 1
          \<and> translating w'' = [data (state (app w'))]"
      if "step w' (ClickLanguage Zh) = Some w''" for w''
      using toggle_without_cache [OF ft(1) ft(3) that] ft(2) by simp
    with ft show ?thesis by blast
  qed
  from 1 2 3 4 5 6 7 show ?thesis by blast
qed

theorem calls_per_session_witness:
  "(\<exists>w w' w''.
      run (init (Some ''key''))
        (analysed @ [ClickLanguage Zh,
                     TranslationSettles 0 (Resolved (Some (Json full_record)))]) = Some w
    \<and> analyze_calls (log w) = 1 \<and> translate_calls (log w) = 1
    \<and> truthy (translatedData (app w))
    \<and> step w (ClickLanguage Zh) = Some w' \<and> log w' = log w \<and> language (app w') = Zh
    \<and> \<not> list_ex ends_session [ClickLanguage En, ClickLanguage Zh]
    \<and> run w [ClickLanguage En, ClickLanguage Zh] = Some w''
    \<and> translate_calls (log w'') = 1)
 \<and> (\<exists>w w' w''.
      run (init (Some ''key'')) (analysed @ [ClickLanguage Zh]) = Some w
    \<and> step w (TranslationSettles 0 (Rejected service_down)) = Some w'
    \<and> fst (translateAnalysis (apiKey w) (translating w ! 0) (Rejected service_down))
        = Inl service_down
    \<and> \<not> truthy (translatedData (app w'))
    \<and> translate_calls (log w') = 1
    \<and> step w' (ClickLanguage Zh) = Some w''
    \<and> translate_calls (log w'') = 2
    \<and> translating w'' = [full_record])"
proof -
  let ?es = "analysed @ [ClickLanguage Zh,
                         TranslationSettles 0 (Resolved (Some (Json full_record)))]"
  obtain w where r: "run (init (Some ''key'')) ?es = Some w"
    and f: "mounted w" "toggle_shown w" "truthy (translatedData (app w))"
           "translate_calls (log w) = 1"
    by (simp add: controller_defs service_defs sample_defs)
  have n: "length (filter selects ?es) = 1"
    by (simp add: analysed_def handleChange_def)
  have q: "\<not> list_ex ends_session [ClickLanguage En, ClickLanguage Zh]"
    by simp
  obtain w' where s: "step w (ClickLanguage Zh) = Some w'"
    using f by (simp add: step_def)
  obtain w'' where t: "run w [ClickLanguage En, ClickLanguage Zh] = Some w''"
    using f by (simp add: step_def toggle_shown_def commit_def starts_translation_def)
  from calls_per_session [OF r] n f s t q
  have a: "analyze_calls (log w) = 1 \<and> log w' = log w \<and> language (app w') = Zh
        \<and> translate_calls (log w'') = 1"
    by (metis (no_types, lifting))
  obtain v where r2: "run (init (Some ''key'')) (analysed @ [ClickLanguage Zh]) = Some v"
    and g: "mounted v" "translating v = [full_record]" "apiKey v = Some ''key''"
           "translate_calls (log v) = 1" "pdfUrl (app v) \<noteq> None"
           "data (state (app v)) = full_record"
    by (simp add: controller_defs service_defs sample_defs)
  have ft: "fst (translateAnalysis (apiKey v) (translating v ! 0) (Rejected service_down))
             = Inl service_down"
    using g by (simp add: service_defs)
  obtain v' where s2: "step v (TranslationSettles 0 (Rejected service_down)) = Some v'"
    using g by (simp add: step_def case_prod_unfold)
  have h: "mounted v'" "toggle_shown v'" "data (state (app v')) = full_record"
    using step_shape [OF s2] g
    by (simp_all add: toggle_shown_def full_record_def)
  obtain v'' where s3: "step v' (ClickLanguage Zh) = Some v''"
    using h by (simp add: step_def)
  from calls_per_session [OF r2] s2 ft s3 g h
  have b: "\<not> truthy (translatedData (app v')) \<and> translate_calls (log v') = 1
           \<and> translate_calls (log v'') = 2 \<and> translating v'' = [full_record]"
    by (metis (no_types, lifting) Suc_1 Suc_eq_plus1)
  from r f s t q a r2 s2 ft s3 b show ?thesis by blast
qed

text \<open>
  The claim as stated fails: after a translation that failed, the second toggle to
  \<^verbatim>\<open>zh\<close> calls \<^verbatim>\<open>translateAnalysis\<close> a second time for the same file.
\<close>

theorem translate_runs_again_after_failure:
  "map_option (\<lambda>w. (analyze_calls (log w), translate_calls (log w)))
     (run (init (Some ''key''))
        (analysed @ [ClickLanguage Zh,
                     TranslationSettles 0 (Rejected service_down),
                     ClickLanguage Zh])) = Some (1, 2)"
  by (simp add: controller_defs service_defs sample_defs)

section \<open>The document view: the page number\<close>

lemma handlePageSubmit_page:
  "numPages (handlePageSubmit v) = numPages v"
  "pageNum (handlePageSubmit v) =
     (case parseInt (pageInput v) of
        Some p \<Rightarrow> if 1 \<le> p \<and> p \<le> numPages v then p else pageNum v
      | None \<Rightarrow> pageNum v)"
  by (simp_all add: handlePageSubmit_def split: option.splits)

lemma changePage_in_range:
  assumes "1 \<le> numPages v"
  shows "1 \<le> pageNum (changePage delta v) \<and> pageNum (changePage delta v) \<le> numPages v"
  using assms by (simp add: changePage_def)

lemma handlePageSubmit_in_range:
  assumes "1 \<le> pageNum v" "pageNum v \<le> numPages v"
  shows "1 \<le> pageNum (handlePageSubmit v) \<and> pageNum (handlePageSubmit v) \<le> numPages v"
  using assms by (auto simp: handlePageSubmit_page split: option.splits)

text \<open>A wheel listener that has captured the state as it is now keeps the range.\<close>

lemma onWheel_in_range:
  assumes "1 \<le> pageNum v" "pageNum v \<le> numPages v"
  shows "1 \<le> pageNum (onWheel v e c v) \<and> pageNum (onWheel v e c v) \<le> numPages v"
  using assms by (auto simp: onWheel_def Let_def)

lemma digit_not_special:
  assumes "is_digit 10 c"
  shows "\<not> isWhiteSpace c" "c \<noteq> CHR ''-''" "c \<noteq> CHR ''+''" "c \<noteq> CHR ''x''" "c \<noteq> CHR ''X''"
  using assms
  by (auto simp: is_digit_def digit_value_def isWhiteSpace_def Let_def split: if_splits)

lemma parseInt_digits:
  assumes "s \<noteq> []" "list_all (is_digit 10) s"
  shows "parseInt s = Some (int (number_of 10 0 s))"
proof -
  from assms obtain c cs where s: "s = c # cs" and c: "is_digit 10 c" and cs: "list_all (is_digit 10) cs"
    by (cases s) auto
  have 1: "dropWhile isWhiteSpace s = s"
    using s c digit_not_special(1) by simp
  have 2: "strip_sign s = (1, s)"
    using s c digit_not_special(2,3) by (simp add: strip_sign_def)
  have 3: "strip_prefix s = (10, s)"
  proof (cases cs)
    case Nil
    with s show ?thesis by (simp add: strip_prefix_def)
  next
    case (Cons d ds)
    with cs have "is_digit 10 d" by simp
    then have "d \<noteq> CHR ''x''" "d \<noteq> CHR ''X''"
      using digit_not_special(4,5) by blast+
    with s Cons show ?thesis by (simp add: strip_prefix_def)
  qed
  have 4: "takeWhile (is_digit 10) s = s"
    using assms(2) by (simp add: list_all_iff)
  have "parseInt s =
          (let z = takeWhile (is_digit 10) s
           in if z = [] then None else Some (1 * int (number_of 10 0 z)))"
    by (simp add: parseInt_def 1 2 3)
  also have "\<dots> = Some (int (number_of 10 0 s))"
    unfolding 4 using assms(1) by simp
  finally show ?thesis .
qed

lemmas viewer_defs =
  run_effects_def sync_input_def loadPdf_resume_def handlePageSubmit_def changePage_def
  init_mounted_def init_viewer_def three_pages_def parseInt_def strip_sign_def strip_prefix_def
  isWhiteSpace_def is_digit_def digit_value_def toString_def onWheel_def Let_def
  fits_def wheel_down_def wheel_up_def second_page_shown_def

text \<open>The entry \<^verbatim>\<open>2abc\<close> is not a number, and submitting it changes the page from 1 to 2.\<close>

lemma entry_with_trailing_letters_is_accepted:
  "map_option (\<lambda>m. pageNum (hooks m))
     (vrun init_mounted [LoadSettles (Resolved three_pages), TypePage ''2abc'', SubmitPage]) = Some 2
   \<and> \<not> list_all (is_digit 10) ''2abc''"
  by (simp add: viewer_defs)

text \<open>
  Claim C7 at two turns of the wheel that reach the same listener. The second page of
  three is shown; the listener has captured page 2, so both turns pass its test
  \<^verbatim>\<open>pageNum < numPages\<close> and each adds one: the page number is 4 of 3. Upwards, both
  pass \<^verbatim>\<open>pageNum > 1\<close> and the page number is 0. With a run of the effect hooks between
  the two turns the second turn is refused and the page number stays at 3.
\<close>

theorem two_wheel_turns_leave_the_range:
  "map_option (\<lambda>m. (pageNum (hooks m), numPages (hooks m)))
     (vrun init_mounted second_page_shown) = Some (2, 3)
   \<and> map_option (\<lambda>m. (pageNum (hooks m), numPages (hooks m)))
       (vrun init_mounted (second_page_shown @ [wheel_down, wheel_down])) = Some (4, 3)
   \<and> map_option (\<lambda>m. (pageNum (hooks m), numPages (hooks m)))
       (vrun init_mounted (second_page_shown @ [wheel_up, wheel_up])) = Some (0, 3)
   \<and> map_option (\<lambda>m. (pageNum (hooks m), numPages (hooks m)))
       (vrun init_mounted (second_page_shown @ [wheel_down, EffectsRun, wheel_down])) = Some (3, 3)"
  by (simp add: viewer_defs)

section \<open>The document view: overlapping renders\<close>

text \<open>What holds of the claim: a task that runs when the next call starts is cancelled,
  and the rejection of a cancelled task is the one failure that is not logged.\<close>

lemma running_task_is_cancelled:
  assumes "renderTaskRef r = Some t" "t < length (tasks r)" "status (tasks r ! t) = Running"
      and "pdfDoc v \<noteq> None" "has_canvas r"
  shows "status (tasks (renderPage_start v r) ! t) = Cancelled"
  using assms by (simp add: renderPage_start_def cancel_def)

lemma cancellation_is_silent:
  "console (catch_render e r) =
     (if name_of e = Some ''RenderingCancelledException'' then console r
      else console r @ [ConsoleError ''Render error:'' (Some e)])"
  by (simp add: catch_render_def)

text \<open>
  Claim C2 at two calls of \<^verbatim>\<open>renderPage\<close> of which the second starts while the first
  awaits \<^verbatim>\<open>getPage\<close>. The second call finds in \<^verbatim>\<open>renderTaskRef\<close> only the finished task
  of page 1, so nothing cancels the first: the renders of page 2 and of page 3 run at the
  same time. If both finish, two pages have been painted and nothing is logged; if the
  library refuses the second render because the canvas is in use, the page painted is
  the one of the first call and the refusal is logged.
\<close>

theorem second_call_does_not_cancel_first:
  "map_option pages_and_status (rrun init_renderer (first_page_shown @ two_quick_page_changes))
     = Some [(1, Completed), (2, Running), (3, Running)]
   \<and> map_option (\<lambda>r. (pages_and_status r, console r))
       (rrun init_renderer (first_page_shown @ two_quick_page_changes @ both_renders_finish))
     = Some ([(1, Completed), (2, Completed), (3, Completed)], [])
   \<and> map_option (\<lambda>r. (pages_and_status r, console r))
       (rrun init_renderer (first_page_shown @ two_quick_page_changes @ second_render_refused))
     = Some ([(1, Completed), (2, Completed), (3, Failed)],
             [ConsoleError ''Render error:'' (Some canvas_in_use)])"
  by (simp add: first_page_shown_def two_quick_page_changes_def both_renders_finish_def
        second_render_refused_def canvas_in_use_def catch_render_def
        pages_and_status_def init_renderer_def renderPage_start_def renderPage_resume_def
        cancel_def on_page_def three_pages_def page_a4_def returned_def set_status_def Let_def)

end
